theory Spec2Isabelle
  imports Complex_Main "HOL-Library.Sublist"
begin

section \<open>Playback tokens (app/utils/video\_token.py)\<close>

text \<open>
  The playback token is a JWT produced and checked by the PyJWT library with the
  symmetric algorithm HS256. The library is not part of the repository, so its two entry
  points are modelled by their contract, with the signature treated symbolically: a
  token string is either the compact serialisation of a claims object signed under some
  key (\<open>Signed key claims\<close>), or any other string (\<open>Blob s\<close>, which
  \<open>jwt.decode\<close> rejects with \<open>DecodeError\<close>). A signature verifies exactly under
  the key it was made with.

  A claims object is a JSON object whose values are strings or integers: the claims the
  code reads are strings (\<open>video_id\<close>, \<open>user_id\<close>, \<open>type\<close>), the
  registered claims the library checks are NumericDates (\<open>iat\<close>, \<open>nbf\<close>,
  \<open>exp\<close>) and \<open>aud\<close>. Claim values of other JSON types (fractions, booleans,
  null, arrays, objects) are not modelled. Clock readings are seconds since the epoch.
\<close>

datatype json = JStr string | JInt int

type_synonym claims = "string \<rightharpoonup> json"

datatype token = Signed string claims | Blob string

datatype jwt_error =
    DecodeError
  | InvalidSignatureError
  | InvalidIssuedAtError
  | ImmatureSignatureError
  | ExpiredSignatureError
  | InvalidAudienceError

text \<open>\<open>jwt.encode(payload, key, algorithm='HS256')\<close>.\<close>

definition jwt_encode :: "claims \<Rightarrow> string \<Rightarrow> token" where
  "jwt_encode payload key = Signed key payload"

text \<open>
  PyJWT reads a NumericDate with Python's \<open>int(...)\<close>, which takes an integer as
  it is and parses a string: surrounding white space is dropped, a sign may come first,
  and the decimal digits may be separated by single underscores. \<open>None\<close> is
  \<open>ValueError\<close>. (Digits and white space outside ASCII are not modelled.)
\<close>

definition is_space :: "char \<Rightarrow> bool" where
  "is_space c = (c \<in> set [CHR '' '', CHR 0x09, CHR 0x0A, CHR 0x0B, CHR 0x0C, CHR 0x0D])"

definition digit_of :: "char \<Rightarrow> nat option" where
  "digit_of c = (let n = (of_char c :: nat) in if 48 \<le> n \<and> n \<le> 57 then Some (n - 48) else None)"

fun read_digits :: "nat \<Rightarrow> string \<Rightarrow> nat option" where
  "read_digits acc [] = Some acc"
| "read_digits acc [c] =
     (case digit_of c of None \<Rightarrow> None | Some n \<Rightarrow> Some (10 * acc + n))"
| "read_digits acc (c # d # ds) =
     (if c = CHR ''_''
      then (case digit_of d of None \<Rightarrow> None | Some n \<Rightarrow> read_digits (10 * acc + n) ds)
      else (case digit_of c of None \<Rightarrow> None | Some n \<Rightarrow> read_digits (10 * acc + n) (d # ds)))"

definition py_unsigned :: "string \<Rightarrow> nat option" where
  "py_unsigned s =
     (case s of
        [] \<Rightarrow> None
      | c # cs \<Rightarrow> (case digit_of c of None \<Rightarrow> None | Some n \<Rightarrow> read_digits n cs))"

definition py_int_of_str :: "string \<Rightarrow> int option" where
  "py_int_of_str s =
     (let t = rev (dropWhile is_space (rev (dropWhile is_space s)))
      in case t of
           [] \<Rightarrow> None
         | c # cs \<Rightarrow>
             if c = CHR ''-'' then map_option (\<lambda>n. - int n) (py_unsigned cs)
             else if c = CHR ''+'' then map_option int (py_unsigned cs)
             else map_option int (py_unsigned t))"

definition py_int :: "json \<Rightarrow> int option" where
  "py_int v = (case v of JInt n \<Rightarrow> Some n | JStr s \<Rightarrow> py_int_of_str s)"

text \<open>Python truth of a claim value: a non-empty string, a non-zero number.\<close>

definition json_truthy :: "json \<Rightarrow> bool" where
  "json_truthy v = (case v of JStr s \<Rightarrow> s \<noteq> [] | JInt n \<Rightarrow> n \<noteq> 0)"

text \<open>
  PyJWT's claim validation, in the library's order: \<open>iat\<close> (a value \<open>int\<close>
  rejects is \<open>InvalidIssuedAtError\<close>, a value in the future is
  \<open>ImmatureSignatureError\<close>), \<open>nbf\<close> (a value in the future is
  \<open>ImmatureSignatureError\<close>), \<open>exp\<close> (\<open>exp <= now\<close> is
  \<open>ExpiredSignatureError\<close>) and \<open>aud\<close> (the code passes no audience, so a token
  with a true \<open>aud\<close> claim is \<open>InvalidAudienceError\<close>). A claim that is absent is
  not checked. \<open>None\<close> means the claim passes.
\<close>

definition validate_iat :: "claims \<Rightarrow> real \<Rightarrow> jwt_error option" where
  "validate_iat payload now =
     (case payload ''iat'' of
        None \<Rightarrow> None
      | Some v \<Rightarrow>
          (case py_int v of
             None \<Rightarrow> Some InvalidIssuedAtError
           | Some iat \<Rightarrow> if real_of_int iat > now then Some ImmatureSignatureError else None))"

definition validate_nbf :: "claims \<Rightarrow> real \<Rightarrow> jwt_error option" where
  "validate_nbf payload now =
     (case payload ''nbf'' of
        None \<Rightarrow> None
      | Some v \<Rightarrow>
          (case py_int v of
             None \<Rightarrow> Some DecodeError
           | Some nbf \<Rightarrow> if real_of_int nbf > now then Some ImmatureSignatureError else None))"

definition validate_exp :: "claims \<Rightarrow> real \<Rightarrow> jwt_error option" where
  "validate_exp payload now =
     (case payload ''exp'' of
        None \<Rightarrow> None
      | Some v \<Rightarrow>
          (case py_int v of
             None \<Rightarrow> Some DecodeError
           | Some expiry \<Rightarrow> if real_of_int expiry \<le> now then Some ExpiredSignatureError else None))"

definition validate_aud :: "claims \<Rightarrow> jwt_error option" where
  "validate_aud payload =
     (case payload ''aud'' of
        None \<Rightarrow> None
      | Some v \<Rightarrow> if json_truthy v then Some InvalidAudienceError else None)"

definition validate_claims :: "claims \<Rightarrow> real \<Rightarrow> jwt_error option" where
  "validate_claims payload now =
     (case validate_iat payload now of
        Some e \<Rightarrow> Some e
      | None \<Rightarrow>
          (case validate_nbf payload now of
             Some e \<Rightarrow> Some e
           | None \<Rightarrow>
               (case validate_exp payload now of
                  Some e \<Rightarrow> Some e
                | None \<Rightarrow> validate_aud payload)))"

text \<open>\<open>jwt.decode(token, key, algorithms=['HS256'])\<close> at clock reading \<open>now\<close>.\<close>

definition jwt_decode :: "token \<Rightarrow> string \<Rightarrow> real \<Rightarrow> jwt_error + claims" where
  "jwt_decode tok key now =
     (case tok of
        Blob s \<Rightarrow> Inl DecodeError
      | Signed k payload \<Rightarrow>
          if k \<noteq> key then Inl InvalidSignatureError
          else (case validate_claims payload now of
                  Some e \<Rightarrow> Inl e
                | None \<Rightarrow> Inr payload))"

text \<open>
  \<open>os.getenv('JWT_SECRET_KEY', default)\<close>: the first argument of the functions below
  is the value of the environment variable, \<open>None\<close> when it is unset.
\<close>

definition get_video_secret :: "string option \<Rightarrow> string" where
  "get_video_secret env_key =
     (case env_key of None \<Rightarrow> ''video-secret-key'' | Some k \<Rightarrow> k) @ ''-video''"

text \<open>
  \<open>generate_playback_token\<close> reads the clock twice (\<open>t_iat\<close> for \<open>iat\<close>,
  \<open>t_exp\<close> for \<open>exp\<close>); PyJWT stores both as whole seconds.
\<close>

definition generate_playback_token ::
    "string option \<Rightarrow> real \<Rightarrow> real \<Rightarrow> string \<Rightarrow> string \<Rightarrow> token" where
  "generate_playback_token env_key t_iat t_exp video_id user_id =
     jwt_encode
       [''video_id'' \<mapsto> JStr video_id,
        ''user_id'' \<mapsto> JStr user_id,
        ''type'' \<mapsto> JStr ''playback'',
        ''iat'' \<mapsto> JInt \<lfloor>t_iat\<rfloor>,
        ''exp'' \<mapsto> JInt (\<lfloor>t_exp\<rfloor> + 3600)]
       (get_video_secret env_key)"

text \<open>
  \<open>verify_playback_token\<close>: both \<open>except\<close> clauses (\<open>ExpiredSignatureError\<close> and
  its base class \<open>InvalidTokenError\<close>, which covers every error of \<open>jwt.decode\<close>)
  print a message and return \<open>None\<close>.
\<close>

definition verify_playback_token ::
    "string option \<Rightarrow> real \<Rightarrow> token \<Rightarrow> string \<Rightarrow> string \<Rightarrow> claims option" where
  "verify_playback_token env_key now tok video_id user_id =
     (case jwt_decode tok (get_video_secret env_key) now of
        Inl ExpiredSignatureError \<Rightarrow> None
      | Inl e \<Rightarrow> None
      | Inr payload \<Rightarrow>
          if payload ''type'' \<noteq> Some (JStr ''playback'') then None
          else if payload ''video_id'' \<noteq> Some (JStr video_id) then None
          else if payload ''user_id'' \<noteq> Some (JStr user_id) then None
          else Some payload)"

text \<open>
  \<open>verify_playback_token_without_user\<close> (app/routes/video.py) computes its secret
  itself, with a default of its own.
\<close>

definition verify_playback_token_without_user ::
    "string option \<Rightarrow> real \<Rightarrow> token \<Rightarrow> string \<Rightarrow> claims option" where
  "verify_playback_token_without_user env_key now tok video_id =
     (let secret = (case env_key of None \<Rightarrow> ''jwt-secret-key'' | Some k \<Rightarrow> k) @ ''-video''
      in case jwt_decode tok secret now of
           Inl ExpiredSignatureError \<Rightarrow> None
         | Inl e \<Rightarrow> None
         | Inr payload \<Rightarrow>
             if payload ''type'' \<noteq> Some (JStr ''playback'') then None
             else if payload ''video_id'' \<noteq> Some (JStr video_id) then None
             else Some payload)"

section \<open>Stream resolution cache (app/routes/video.py)\<close>

text \<open>
  A Python \<open>dict\<close> of HTTP headers is a map from header name to value.
  \<open>time.time()\<close> is a real number of seconds.
\<close>

type_synonym headers_dict = "string \<rightharpoonup> string"

record cache_entry =
  url :: string
  headers :: headers_dict
  expires_at :: real

text \<open>
  The process state the handlers share: the module-level \<open>_stream_cache\<close>, and, to
  state which external calls a request makes, the log of URLs handed to
  \<open>ydl.extract_info\<close> and the log of \<open>requests.get\<close> calls (URL and request
  headers). The leading underscore of the Python names is dropped.
\<close>

record world =
  stream_cache :: "string \<rightharpoonup> cache_entry"
  extract_calls :: "string list"
  fetch_calls :: "(string \<times> headers_dict) list"

definition CACHE_DURATION :: real where
  "CACHE_DURATION = 3600"

text \<open>\<open>_get_cached_stream_data\<close>, run at clock reading \<open>now\<close> under the lock.\<close>

definition get_cached_stream_data :: "real \<Rightarrow> string \<Rightarrow> world \<Rightarrow> cache_entry option \<times> world" where
  "get_cached_stream_data now yt_id w =
     (case stream_cache w yt_id of
        Some cached \<Rightarrow>
          if expires_at cached > now then (Some cached, w)
          else (None, w\<lparr>stream_cache := (stream_cache w)(yt_id := None)\<rparr>)
      | None \<Rightarrow> (None, w))"

text \<open>\<open>_cache_stream_data\<close>, run at clock reading \<open>now\<close> under the lock.\<close>

definition cache_stream_data :: "real \<Rightarrow> string \<Rightarrow> string \<Rightarrow> headers_dict \<Rightarrow> world \<Rightarrow> world" where
  "cache_stream_data now yt_id u h w =
     w\<lparr>stream_cache := (stream_cache w)(yt_id \<mapsto>
          \<lparr>url = u, headers = h, expires_at = now + CACHE_DURATION\<rparr>)\<rparr>"

text \<open>
  The result of \<open>ydl.extract_info(youtube_url, download=False)\<close>: it raises, or it
  returns the info dictionary, of which the code reads \<open>url\<close>, \<open>http_headers\<close>
  and \<open>formats\<close> (a missing key is \<open>None\<close>; missing \<open>formats\<close> is the
  empty list), and of each format \<open>url\<close>, \<open>ext\<close> and \<open>http_headers\<close>.
\<close>

record fmt =
  format_url :: "string option"
  format_ext :: "string option"
  format_http_headers :: "headers_dict option"

record info =
  info_url :: "string option"
  info_http_headers :: "headers_dict option"
  info_formats :: "fmt list"

datatype ydl_result = ExtractRaises | ExtractInfo info

text \<open>Python truth of an optional string: neither \<open>None\<close> nor empty.\<close>

definition truthy :: "string option \<Rightarrow> bool" where
  "truthy s = (case s of None \<Rightarrow> False | Some x \<Rightarrow> x \<noteq> [])"

text \<open>
  The two loops over \<open>reversed(formats)\<close>: the first format with a non-empty URL
  and extension mp4, and the first format with a non-empty URL. The headers are the
  format's own, or \<open>dflt\<close> (the top-level headers) when it has none.
\<close>

fun first_mp4_with_url :: "headers_dict \<Rightarrow> fmt list \<Rightarrow> (string \<times> headers_dict) option" where
  "first_mp4_with_url dflt [] = None"
| "first_mp4_with_url dflt (f # fs) =
     (case format_url f of
        None \<Rightarrow> first_mp4_with_url dflt fs
      | Some u \<Rightarrow>
          if u \<noteq> [] \<and> format_ext f = Some ''mp4''
          then Some (u, case format_http_headers f of None \<Rightarrow> dflt | Some h \<Rightarrow> h)
          else first_mp4_with_url dflt fs)"

fun first_with_url :: "headers_dict \<Rightarrow> fmt list \<Rightarrow> (string \<times> headers_dict) option" where
  "first_with_url dflt [] = None"
| "first_with_url dflt (f # fs) =
     (case format_url f of
        None \<Rightarrow> first_with_url dflt fs
      | Some u \<Rightarrow>
          if u \<noteq> []
          then Some (u, case format_http_headers f of None \<Rightarrow> dflt | Some h \<Rightarrow> h)
          else first_with_url dflt fs)"

text \<open>
  The selection made inside \<open>_extract_stream_data\<close> once \<open>extract_info\<close> has
  returned: the top-level URL, else the last mp4 format with a URL, else the last format
  with a URL. Each of the three branches of the source caches and returns the pair
  selected here; \<open>None\<close> is the fall-through to \<open>return None, None\<close>.
\<close>

definition pick_stream :: "info \<Rightarrow> (string \<times> headers_dict) option" where
  "pick_stream i =
     (let http_headers = (case info_http_headers i of None \<Rightarrow> Map.empty | Some h \<Rightarrow> h);
          from_formats =
            (case first_mp4_with_url http_headers (rev (info_formats i)) of
               Some r \<Rightarrow> Some r
             | None \<Rightarrow> first_with_url http_headers (rev (info_formats i)))
      in case info_url i of
           None \<Rightarrow> from_formats
         | Some stream_url \<Rightarrow>
             if stream_url \<noteq> [] then Some (stream_url, http_headers) else from_formats)"

text \<open>The watch-page URL \<open>_extract_stream_data\<close> hands to yt-dlp.\<close>

definition youtube_url :: "string \<Rightarrow> string" where
  "youtube_url yt_id = ''https://www.youtube.com/watch?v='' @ yt_id"

text \<open>
  \<open>_extract_stream_data\<close>. \<open>ydl\<close> is the behaviour of \<open>extract_info\<close>,
  \<open>t_lookup\<close> the clock reading of the cache lookup and \<open>t_store\<close> that of the
  cache store. Every exception is caught and gives \<open>(None, None)\<close>.
\<close>

definition extract_stream_data ::
    "(string \<Rightarrow> ydl_result) \<Rightarrow> real \<Rightarrow> real \<Rightarrow> string \<Rightarrow> world
      \<Rightarrow> (string option \<times> headers_dict option) \<times> world" where
  "extract_stream_data ydl t_lookup t_store yt_id w =
     (case get_cached_stream_data t_lookup yt_id w of
        (Some cached, w1) \<Rightarrow> ((Some (url cached), Some (headers cached)), w1)
      | (None, w1) \<Rightarrow>
          (let w2 = w1\<lparr>extract_calls := extract_calls w1 @ [youtube_url yt_id]\<rparr>
           in case ydl (youtube_url yt_id) of
                ExtractRaises \<Rightarrow> ((None, None), w2)
              | ExtractInfo i \<Rightarrow>
                  (case pick_stream i of
                     Some (u, h) \<Rightarrow> ((Some u, Some h), cache_stream_data t_store yt_id u h w2)
                   | None \<Rightarrow> ((None, None), w2))))"

section \<open>Video model (app/models/video.py)\<close>

text \<open>
  The fields of \<open>Video\<close> that the handlers below read, and a stored document with
  the keys \<open>find_by_id\<close> reads (a missing key is \<open>None\<close>).
\<close>

record video =
  title :: string
  description :: string
  youtube_id :: string
  thumbnail_url :: string
  is_active :: bool

record document =
  doc_title :: "string option"
  doc_description :: "string option"
  doc_youtube_id :: "string option"
  doc_thumbnail_url :: "string option"
  doc_is_active :: "bool option"

text \<open>\<open>find_one\<close> raises, or returns a document or \<open>None\<close>.\<close>

datatype find_result = FindRaises | Found "document option"

text \<open>
  \<open>Video.find_by_id\<close>. \<open>object_id\<close> is bson's \<open>ObjectId\<close> constructor
  (\<open>None\<close> when it raises \<open>InvalidId\<close>) and \<open>find_one\<close> the collection lookup
  by the parsed identifier. The body is wrapped in \<open>try ... except Exception: pass\<close>,
  so a rejected identifier, a database error and a document without a required key
  (\<open>KeyError\<close>) all fall through to \<open>return None\<close>.
\<close>

definition find_by_id ::
    "(string \<Rightarrow> string option) \<Rightarrow> (string \<Rightarrow> find_result) \<Rightarrow> string \<Rightarrow> video option" where
  "find_by_id object_id find_one video_id =
     (case object_id video_id of
        None \<Rightarrow> None
      | Some oid \<Rightarrow>
          (case find_one oid of
             FindRaises \<Rightarrow> None
           | Found None \<Rightarrow> None
           | Found (Some data) \<Rightarrow>
               (case (doc_title data, doc_description data, doc_youtube_id data, doc_thumbnail_url data) of
                  (Some t, Some d, Some y, Some th) \<Rightarrow>
                    Some \<lparr>title = t, description = d, youtube_id = y, thumbnail_url = th,
                          is_active = (case doc_is_active data of None \<Rightarrow> True | Some b \<Rightarrow> b)\<rparr>
                | _ \<Rightarrow> None)))"

section \<open>Requests, responses and the outside world\<close>

text \<open>
  flask\_jwt\_extended is not part of the repository. \<open>@jwt_required()\<close> verifies the
  access token of the \<open>Authorization\<close> header before the view is entered; the model
  takes the outcome of that verification as part of the request: no token
  (\<open>NoAuthorizationError\<close>), an expired one, one that is invalid for another reason,
  or a verified token, whose identity \<open>get_jwt_identity()\<close> then returns.
\<close>

datatype jwt_in_request = NoAuthorization | ExpiredToken | InvalidToken | Verified string

text \<open>
  What a handler reads of the request: the \<open>token\<close> query argument, the
  \<open>Range\<close> header, and the outcome of the access token's verification.
\<close>

record request =
  arg_token :: "token option"
  hdr_Range :: "string option"
  verify_jwt_in_request :: jwt_in_request

text \<open>
  The upstream answer to \<open>requests.get(stream_url, headers=req_headers, stream=True,
  timeout=30)\<close>: \<open>requests.exceptions.Timeout\<close>, another exception, or a response
  with a status code, headers and the chunks \<open>iter_content\<close> yields. The headers of
  a \<open>requests\<close> response are a case-insensitive dictionary, stored under the
  lower-cased name; \<open>ci_get\<close> is its lookup.
\<close>

record upstream_response =
  up_status :: nat
  up_headers :: headers_dict
  up_chunks :: "string list"

datatype fetch_result = FetchTimeout | FetchError | Fetched upstream_response

definition lower_char :: "char \<Rightarrow> char" where
  "lower_char c =
     (let n = (of_char c :: nat) in if 65 \<le> n \<and> n \<le> 90 then char_of (n + 32) else c)"

definition ci_get :: "headers_dict \<Rightarrow> string \<Rightarrow> string option" where
  "ci_get h name = h (map lower_char name)"

text \<open>
  Everything outside the process that one request depends on: the environment variable,
  the clock readings (of \<open>jwt.decode\<close>, of the cache lookup and of the cache store),
  bson's \<open>ObjectId\<close>, the database, yt-dlp and the upstream host.
\<close>

record ext =
  JWT_SECRET_KEY :: "string option"
  t_decode :: real
  t_lookup :: real
  t_store :: real
  ObjectId :: "string \<Rightarrow> string option"
  find_one :: "string \<Rightarrow> find_result"
  extract_info :: "string \<Rightarrow> ydl_result"
  requests_get :: "string \<Rightarrow> headers_dict \<Rightarrow> fetch_result"

text \<open>
  A response: status code, the headers the handler sets itself, and the body. A URL that
  embeds the playback token is kept as the text before the token and the token.
\<close>

record stream_json =
  json_stream_url :: "string \<times> token"
  json_video_id :: string
  json_title :: string
  json_description :: string
  json_thumbnail_url :: string
  expires_in :: nat

datatype body =
    Json_error string
  | Json_error_message string string
  | Json_stream stream_json
  | Plain string
  | Html string
  | Streamed "string list"

record response =
  status :: nat
  resp_headers :: headers_dict
  body :: body

definition json_error :: "nat \<Rightarrow> string \<Rightarrow> response" where
  "json_error code msg = \<lparr>status = code, resp_headers = Map.empty, body = Json_error msg\<rparr>"

definition plain :: "nat \<Rightarrow> string \<Rightarrow> response" where
  "plain code msg = \<lparr>status = code, resp_headers = Map.empty, body = Plain msg\<rparr>"

text \<open>
  The callbacks \<open>create_app\<close> registers for an access token that is expired, invalid
  or missing (app/\_\_init\_\_.py): a JSON object with an \<open>error\<close> and a
  \<open>message\<close>, and status 401.
\<close>

definition expired_token_callback :: response where
  "expired_token_callback =
     \<lparr>status = 401, resp_headers = Map.empty,
      body = Json_error_message ''Token has expired'' ''Please log in again''\<rparr>"

definition invalid_token_callback :: response where
  "invalid_token_callback =
     \<lparr>status = 401, resp_headers = Map.empty,
      body = Json_error_message ''Invalid token'' ''Token verification failed''\<rparr>"

definition missing_token_callback :: response where
  "missing_token_callback =
     \<lparr>status = 401, resp_headers = Map.empty,
      body = Json_error_message ''Authorization required'' ''No token provided''\<rparr>"

section \<open>Handlers (app/routes/video.py)\<close>

text \<open>
  Each view takes the outside world, the request, the path parameter and the process
  state, and returns the response and the new state. \<open>stream_video\<close> is decorated
  with \<open>@jwt_required()\<close>: when the access token does not verify, the registered
  callback answers and the view is not entered; \<open>proxy_video\<close> and
  \<open>video_player\<close> carry no such guard. \<open>if not playback_token\<close> holds
  when the argument is absent or the empty string. A payload that
  \<open>verify_playback_token\<close> returns holds the \<open>type\<close> claim, so it is never the
  empty dictionary and \<open>if not token_data\<close> holds only for \<open>None\<close>.
\<close>

definition stream_video :: "ext \<Rightarrow> request \<Rightarrow> string \<Rightarrow> world \<Rightarrow> response \<times> world" where
  "stream_video x req video_id w =
     (case verify_jwt_in_request req of
        NoAuthorization \<Rightarrow> (missing_token_callback, w)
      | ExpiredToken \<Rightarrow> (expired_token_callback, w)
      | InvalidToken \<Rightarrow> (invalid_token_callback, w)
      | Verified user_id \<Rightarrow>
          (case arg_token req of
             None \<Rightarrow> (json_error 400 ''Playback token is required'', w)
           | Some playback_token \<Rightarrow>
               if playback_token = Blob [] then (json_error 400 ''Playback token is required'', w)
               else
                 (case verify_playback_token (JWT_SECRET_KEY x) (t_decode x) playback_token video_id
                         user_id of
                    None \<Rightarrow> (json_error 400 ''Invalid or expired playback token'', w)
                  | Some token_data \<Rightarrow>
                      (case find_by_id (ObjectId x) (find_one x) video_id of
                         None \<Rightarrow> (json_error 404 ''Video not found'', w)
                       | Some v \<Rightarrow>
                           if \<not> is_active v then (json_error 404 ''Video is not available'', w)
                           else
                             (\<lparr>status = 200, resp_headers = Map.empty,
                               body = Json_stream
                                 \<lparr>json_stream_url = (''/video/'' @ video_id @ ''/proxy?token='', playback_token),
                                  json_video_id = video_id,
                                  json_title = title v,
                                  json_description = description v,
                                  json_thumbnail_url = thumbnail_url v,
                                  expires_in = 3600\<rparr>\<rparr>, w)))))"

text \<open>
  The headers \<open>proxy_video\<close> builds for a fetched upstream response, and its status
  code. \<open>if range_header\<close> holds for a \<open>Range\<close> header that is present and not
  empty.
\<close>

definition proxy_response_headers :: "headers_dict \<Rightarrow> headers_dict" where
  "proxy_response_headers up =
     (let response_headers =
            [''Content-Type'' \<mapsto> (case ci_get up ''Content-Type'' of None \<Rightarrow> ''video/mp4'' | Some v \<Rightarrow> v),
             ''Accept-Ranges'' \<mapsto> ''bytes'',
             ''Access-Control-Allow-Origin'' \<mapsto> ''*''];
          response_headers =
            (case ci_get up ''Content-Length'' of
               None \<Rightarrow> response_headers
             | Some v \<Rightarrow> response_headers(''Content-Length'' \<mapsto> v));
          response_headers =
            (case ci_get up ''Content-Range'' of
               None \<Rightarrow> response_headers
             | Some v \<Rightarrow> response_headers(''Content-Range'' \<mapsto> v))
      in response_headers)"

definition proxy_status_code :: "string option \<Rightarrow> nat \<Rightarrow> nat" where
  "proxy_status_code range_header upstream_status =
     (if truthy range_header \<and> upstream_status = 206 then 206 else 200)"

definition proxy_video :: "ext \<Rightarrow> request \<Rightarrow> string \<Rightarrow> world \<Rightarrow> response \<times> world" where
  "proxy_video x req video_id w =
     (case arg_token req of
        None \<Rightarrow> (plain 400 ''Token required'', w)
      | Some playback_token \<Rightarrow>
          if playback_token = Blob [] then (plain 400 ''Token required'', w)
          else
            (case verify_playback_token_without_user (JWT_SECRET_KEY x) (t_decode x)
                    playback_token video_id of
               None \<Rightarrow> (plain 400 ''Invalid or expired token'', w)
             | Some token_data \<Rightarrow>
                 (case find_by_id (ObjectId x) (find_one x) video_id of
                    None \<Rightarrow> (plain 404 ''Video not found'', w)
                  | Some v \<Rightarrow>
                      if \<not> is_active v then (plain 404 ''Video not available'', w)
                      else
                        (case extract_stream_data (extract_info x) (t_lookup x) (t_store x)
                                (youtube_id v) w of
                           ((Some stream_url, stream_headers), w1) \<Rightarrow>
                             if stream_url = [] then (plain 500 ''Failed to get video stream'', w1)
                             else
                               (let range_header = hdr_Range req;
                                    req_headers =
                                      (case stream_headers of None \<Rightarrow> Map.empty | Some h \<Rightarrow> h);
                                    req_headers =
                                      (case range_header of
                                         None \<Rightarrow> req_headers
                                       | Some r \<Rightarrow>
                                           if r \<noteq> [] then req_headers(''Range'' \<mapsto> r)
                                           else req_headers);
                                    w2 = w1\<lparr>fetch_calls := fetch_calls w1 @ [(stream_url, req_headers)]\<rparr>
                                in case requests_get x stream_url req_headers of
                                     FetchTimeout \<Rightarrow> (plain 504 ''Stream timeout'', w2)
                                   | FetchError \<Rightarrow> (plain 500 ''Failed to stream video'', w2)
                                   | Fetched resp \<Rightarrow>
                                       (\<lparr>status = proxy_status_code range_header (up_status resp),
                                         resp_headers = proxy_response_headers (up_headers resp),
                                         body = Streamed (filter (\<lambda>chunk. chunk \<noteq> []) (up_chunks resp))\<rparr>,
                                        w2))
                         | ((None, stream_headers), w1) \<Rightarrow>
                             (plain 500 ''Failed to get video stream'', w1)))))"

subsection \<open>The player page\<close>

text \<open>
  The two f-string templates of \<open>video_player\<close> and \<open>_error_html\<close>, cut at their
  placeholders (\<open>{video.title}\<close>, \<open>{video.youtube_id}\<close>, \<open>{message}\<close>) and
  with the doubled braces of the f-string written once. Strings are bytes: the
  characters outside ASCII are given by their UTF-8 bytes. The script URL is a constant
  of its own.
\<close>

definition player_page_head :: string where
  \<open>player_page_head =
     ''
<!DOCTYPE html>
<html lang="en">
<head>
    <meta charset="UTF-8">
    <meta name="viewport" content="width=device-width, initial-scale=1.0, maximum-scale=1.0, user-scalable=no">
    <title>''\<close>

definition player_page_style_and_controls :: string where
  \<open>player_page_style_and_controls =
     ''</title>
    <style>
        * {
            margin: 0;
            padding: 0;
            box-sizing: border-box;
        }
        html, body {
            width: 100%;
            height: 100%;
            background-color: #000;
            overflow: hidden;
            touch-action: manipulation;
        }
        .player-wrapper {
            position: relative;
            width: 100%;
            height: 100%;
        }
        #player {
            position: absolute;
            top: 0;
            left: 0;
            width: 100%;
            height: 100%;
        }
        /* Custom controls overlay */
        .controls {
            position: absolute;
            bottom: 0;
            left: 0;
            right: 0;
            padding: 15px;
            background: linear-gradient(transparent, rgba(0,0,0,0.8));
            z-index: 100;
            display: flex;
            align-items: center;
            gap: 15px;
        }
        .play-btn {
            width: 44px;
            height: 44px;
            background: rgba(255,255,255,0.2);
            border: none;
            border-radius: 50%;
            color: white;
            font-size: 18px;
            cursor: pointer;
            display: flex;
            align-items: center;
            justify-content: center;
        }
        .progress-container {
            flex: 1;
            height: 6px;
            background: rgba(255,255,255,0.3);
            border-radius: 3px;
            cursor: pointer;
        }
        .progress-bar {
            height: 100%;
            background: #ff0000;
            border-radius: 3px;
            width: 0%;
            transition: width 0.1s;
        }
        .time {
            color: white;
            font-size: 12px;
            font-family: Arial, sans-serif;
            min-width: 80px;
            text-align: right;
        }
        .mute-btn {
            width: 40px;
            height: 40px;
            background: transparent;
            border: none;
            color: white;
            font-size: 20px;
            cursor: pointer;
        }
        /* Tap area for play/pause */
        .tap-area {
            position: absolute;
            top: 0;
            left: 0;
            right: 0;
            bottom: 60px;
            z-index: 50;
        }
        /* Center play button */
        .center-play {
            position: absolute;
            top: 50%;
            left: 50%;
            transform: translate(-50%, -50%);
            width: 70px;
            height: 70px;
            background: rgba(0,0,0,0.6);
            border-radius: 50%;
            display: flex;
            align-items: center;
            justify-content: center;
            font-size: 30px;
            color: white;
            z-index: 60;
            opacity: 0;
            transition: opacity 0.2s;
            pointer-events: none;
        }
        .center-play.visible {
            opacity: 1;
        }
    </style>
</head>
<body>
    <div class="player-wrapper">
        <div id="player"></div>
        
        <!-- Tap area for play/pause -->
        <div class="tap-area" id="tapArea"></div>
        
        <!-- Center play indicator -->
        <div class="center-play" id="centerPlay">''
     @ [CHR 0xE2, CHR 0x80, CHR 0x9A, CHR 0xC3, CHR 0xB1, CHR 0xE2, CHR 0x88, CHR 0x82]
     @ ''</div>
        
        <!-- Custom controls -->
        <div class="controls">
            <button class="play-btn" id="playBtn">''
     @ [CHR 0xE2, CHR 0x80, CHR 0x9A, CHR 0xC3, CHR 0xB1, CHR 0xE2, CHR 0x88, CHR 0x82]
     @ ''</button>
            <div class="progress-container" id="progressContainer">
                <div class="progress-bar" id="progressBar"></div>
            </div>
            <span class="time" id="timeDisplay">0:00 / 0:00</span>
            <button class="mute-btn" id="muteBtn">''
     @ [CHR 0xEF, CHR 0xA3, CHR 0xBF, CHR 0xC3, CHR 0xBC, CHR 0xC3, CHR 0xAE, CHR 0xC3, CHR 0xA4]
     @ ''</button>
        </div>
    </div>

    ''\<close>

definition youtube_iframe_api :: string where
  \<open>youtube_iframe_api =
     ''https://www.youtube.com/iframe_api''\<close>

definition player_page_script_open :: string where
  \<open>player_page_script_open =
     (''<script>
        // Load YouTube IFrame API
        var tag = document.createElement('script');
        tag.src = "'')
     @ youtube_iframe_api
     @ (''";
        var firstScriptTag = document.getElementsByTagName('script')[0];
        firstScriptTag.parentNode.insertBefore(tag, firstScriptTag);

        var player;
        var isPlaying = false;
        var isMuted = false;
        var updateInterval;

        function onYouTubeIframeAPIReady() {
            player = new YT.Player('player', {
                videoId: ''
        @ [CHR 0x27])\<close>

definition player_page_script_rest :: string where
  \<open>player_page_script_rest =
     [CHR 0x27]
     @ '',
                playerVars: {
                    'autoplay': 1,
                    'controls': 0,
                    'rel': 0,
                    'modestbranding': 1,
                    'playsinline': 1,
                    'fs': 0,
                    'iv_load_policy': 3,
                    'disablekb': 1,
                    'origin': window.location.origin
                },
                events: {
                    'onReady': onPlayerReady,
                    'onStateChange': onPlayerStateChange
                }
            });
        }

        function onPlayerReady(event) {
            event.target.playVideo();
            startProgressUpdate();
        }

        function onPlayerStateChange(event) {
            isPlaying = (event.data === YT.PlayerState.PLAYING);
            updatePlayButton();
        }

        function updatePlayButton() {
            document.getElementById('playBtn').textContent = isPlaying ? ''
     @ [CHR 0x27, CHR 0xE2, CHR 0x80, CHR 0x9A, CHR 0xC3, CHR 0xA8, CHR 0xE2, CHR 0x88, CHR 0x8F, CHR 0x27]
     @ '' : ''
     @ [CHR 0x27, CHR 0xE2, CHR 0x80, CHR 0x9A, CHR 0xC3, CHR 0xB1, CHR 0xE2, CHR 0x88, CHR 0x82, CHR 0x27]
     @ '';
            document.getElementById('centerPlay').textContent = isPlaying ? ''
     @ [CHR 0x27, CHR 0xE2, CHR 0x80, CHR 0x9A, CHR 0xC3, CHR 0xA8, CHR 0xE2, CHR 0x88, CHR 0x8F, CHR 0x27]
     @ '' : ''
     @ [CHR 0x27, CHR 0xE2, CHR 0x80, CHR 0x9A, CHR 0xC3, CHR 0xB1, CHR 0xE2, CHR 0x88, CHR 0x82, CHR 0x27]
     @ '';
        }

        function togglePlay() {
            if (isPlaying) {
                player.pauseVideo();
            } else {
                player.playVideo();
            }
            // Show center indicator briefly
            var center = document.getElementById('centerPlay');
            center.classList.add('visible');
            setTimeout(function() {
                center.classList.remove('visible');
            }, 500);
        }

        function toggleMute() {
            if (isMuted) {
                player.unMute();
                isMuted = false;
                document.getElementById('muteBtn').textContent = ''
     @ [CHR 0x27, CHR 0xEF, CHR 0xA3, CHR 0xBF, CHR 0xC3, CHR 0xBC, CHR 0xC3, CHR 0xAE, CHR 0xC3, CHR 0xA4, CHR 0x27]
     @ '';
            } else {
                player.mute();
                isMuted = true;
                document.getElementById('muteBtn').textContent = ''
     @ [CHR 0x27, CHR 0xEF, CHR 0xA3, CHR 0xBF, CHR 0xC3, CHR 0xBC, CHR 0xC3, CHR 0xAE, CHR 0xC3, CHR 0xA1, CHR 0x27]
     @ '';
            }
        }

        function formatTime(seconds) {
            var mins = Math.floor(seconds / 60);
            var secs = Math.floor(seconds % 60);
            return mins + ':' + (secs < 10 ? '0' : ''
     @ [CHR 0x27, CHR 0x27]
     @ '') + secs;
        }

        function startProgressUpdate() {
            updateInterval = setInterval(function() {
                if (player && player.getCurrentTime) {
                    var current = player.getCurrentTime();
                    var duration = player.getDuration();
                    var percent = (current / duration) * 100;
                    document.getElementById('progressBar').style.width = percent + '%';
                    document.getElementById('timeDisplay').textContent = 
                        formatTime(current) + ' / ' + formatTime(duration);
                }
            }, 250);
        }

        function seek(e) {
            var container = document.getElementById('progressContainer');
            var rect = container.getBoundingClientRect();
            var percent = (e.clientX - rect.left) / rect.width;
            var duration = player.getDuration();
            player.seekTo(percent * duration, true);
        }

        // Event listeners
        document.getElementById('playBtn').addEventListener('click', togglePlay);
        document.getElementById('tapArea').addEventListener('click', togglePlay);
        document.getElementById('muteBtn').addEventListener('click', toggleMute);
        document.getElementById('progressContainer').addEventListener('click', seek);

        // Block any navigation attempts
        window.open = function() { return null; };
    </script>
</body>
</html>
''\<close>

definition error_page_head :: string where
  \<open>error_page_head =
     ''
<!DOCTYPE html>
<html>
<head>
    <meta name="viewport" content="width=device-width, initial-scale=1.0">
    <style>
        body {
            background-color: #1a1a1a;
            color: #fff;
            font-family: Arial, sans-serif;
            display: flex;
            justify-content: center;
            align-items: center;
            height: 100vh;
            margin: 0;
        }
        .error-container {
            text-align: center;
            padding: 20px;
        }
        h1 {
            color: #ff4444;
            margin-bottom: 10px;
        }
        p {
            color: #ccc;
        }
    </style>
</head>
<body>
    <div class="error-container">
        <h1>Error</h1>
        <p>''\<close>

definition error_page_tail :: string where
  \<open>error_page_tail =
     ''</p>
    </div>
</body>
</html>
''\<close>

definition error_html :: "nat \<Rightarrow> string \<Rightarrow> response" where
  "error_html code message =
     \<lparr>status = code,
      resp_headers = [''Content-Type'' \<mapsto> ''text/html''],
      body = Html (error_page_head @ message @ error_page_tail)\<rparr>"

definition player_html :: "video \<Rightarrow> string" where
  "player_html v =
     player_page_head @ title v @ player_page_style_and_controls @ player_page_script_open
       @ youtube_id v @ player_page_script_rest"

definition video_player :: "ext \<Rightarrow> request \<Rightarrow> string \<Rightarrow> world \<Rightarrow> response \<times> world" where
  "video_player x req video_id w =
     (case arg_token req of
        None \<Rightarrow> (error_html 400 ''Playback token is required'', w)
      | Some playback_token \<Rightarrow>
          if playback_token = Blob [] then (error_html 400 ''Playback token is required'', w)
          else
            (case verify_playback_token_without_user (JWT_SECRET_KEY x) (t_decode x)
                    playback_token video_id of
               None \<Rightarrow> (error_html 400 ''Invalid or expired playback token'', w)
             | Some token_data \<Rightarrow>
                 (case find_by_id (ObjectId x) (find_one x) video_id of
                    None \<Rightarrow> (error_html 404 ''Video not found'', w)
                  | Some v \<Rightarrow>
                      if \<not> is_active v then (error_html 404 ''Video is not available'', w)
                      else
                        (\<lparr>status = 200,
                          resp_headers =
                            [''Content-Type'' \<mapsto> ''text/html'',
                             ''Cache-Control'' \<mapsto> ''no-store, no-cache, must-revalidate, max-age=0'',
                             ''Pragma'' \<mapsto> ''no-cache''],
                          body = Html (player_html v)\<rparr>, w))))"

section \<open>Concurrent resolution calls\<close>

text \<open>
  Two threads running \<open>_extract_stream_data\<close> share \<open>_stream_cache\<close> and the one
  lock \<open>_cache_lock\<close>, which is taken inside \<open>_get_cached_stream_data\<close> and inside
  \<open>_cache_stream_data\<close> and nowhere else. \<open>call_state\<close> is the program point of
  one call: about to take the lock for the cache lookup, inside the lookup with the lock
  held, about to call \<open>extract_info\<close> (outside the lock), about to select the URL and
  headers from the answer, about to take the lock for the cache store, inside the store
  with the lock held, and returned.
\<close>

datatype call_state =
    At_lookup string
  | In_lookup string
  | At_extract string
  | At_select string ydl_result
  | At_store string string headers_dict
  | In_store string string headers_dict
  | Returned "string option \<times> headers_dict option"

datatype caller = First | Second

text \<open>
  \<open>call_step me ydl now c lock w\<close> is the next step of the call of thread \<open>me\<close> at
  the program point \<open>c\<close>, at clock reading \<open>now\<close>, with \<open>ydl\<close> the behaviour of
  yt-dlp at that moment, \<open>lock\<close> the holder of \<open>_cache_lock\<close> and \<open>w\<close> the
  shared state. \<open>with _cache_lock:\<close> succeeds when nobody holds the lock; otherwise the
  thread waits, and the step changes nothing. The body of a \<open>with\<close> block runs with the
  lock held and releases it at the end.
\<close>

definition call_step ::
    "caller \<Rightarrow> (string \<Rightarrow> ydl_result) \<Rightarrow> real \<Rightarrow> call_state \<Rightarrow> caller option \<Rightarrow> world
      \<Rightarrow> call_state \<times> caller option \<times> world" where
  "call_step me ydl now c lock w =
     (case c of
        At_lookup yt_id \<Rightarrow>
          if lock = None then (In_lookup yt_id, Some me, w) else (At_lookup yt_id, lock, w)
      | In_lookup yt_id \<Rightarrow>
          (case get_cached_stream_data now yt_id w of
             (Some cached, w1) \<Rightarrow> (Returned (Some (url cached), Some (headers cached)), None, w1)
           | (None, w1) \<Rightarrow> (At_extract yt_id, None, w1))
      | At_extract yt_id \<Rightarrow>
          (At_select yt_id (ydl (youtube_url yt_id)), lock,
           w\<lparr>extract_calls := extract_calls w @ [youtube_url yt_id]\<rparr>)
      | At_select yt_id r \<Rightarrow>
          (case r of
             ExtractRaises \<Rightarrow> (Returned (None, None), lock, w)
           | ExtractInfo i \<Rightarrow>
               (case pick_stream i of
                  Some (u, h) \<Rightarrow> (At_store yt_id u h, lock, w)
                | None \<Rightarrow> (Returned (None, None), lock, w)))
      | At_store yt_id u h \<Rightarrow>
          if lock = None then (In_store yt_id u h, Some me, w) else (At_store yt_id u h, lock, w)
      | In_store yt_id u h \<Rightarrow>
          (Returned (Some u, Some h), None, cache_stream_data now yt_id u h w)
      | Returned r \<Rightarrow> (Returned r, lock, w))"

text \<open>
  A schedule is the list of steps in the order they happen: which of the two threads
  is given the processor, the clock reading, and the behaviour of yt-dlp then. The
  system state is the program points of the two calls, the holder of the lock and the
  shared state. \<open>run\<close> executes a schedule; \<open>run_alone\<close> executes the steps of a
  single call with no other thread around.
\<close>

type_synonym event = "caller \<times> real \<times> (string \<Rightarrow> ydl_result)"

type_synonym system = "call_state \<times> call_state \<times> caller option \<times> world"

fun step :: "event \<Rightarrow> system \<Rightarrow> system" where
  "step (First, now, ydl) (a, b, lock, w) =
     (case call_step First ydl now a lock w of (a', lock', w') \<Rightarrow> (a', b, lock', w'))"
| "step (Second, now, ydl) (a, b, lock, w) =
     (case call_step Second ydl now b lock w of (b', lock', w') \<Rightarrow> (a, b', lock', w'))"

fun run :: "event list \<Rightarrow> system \<Rightarrow> system" where
  "run [] s = s"
| "run (ev # es) s = run es (step ev s)"

fun run_alone ::
    "caller \<Rightarrow> (real \<times> (string \<Rightarrow> ydl_result)) list \<Rightarrow> call_state \<times> caller option \<times> world
      \<Rightarrow> call_state \<times> caller option \<times> world" where
  "run_alone me [] s = s"
| "run_alone me ((now, ydl) # es) (c, lock, w) = run_alone me es (call_step me ydl now c lock w)"

text \<open>
  A thread is blocked when it is about to take the lock and the lock is held. The steps
  of a schedule that thread \<open>me\<close> takes are those at which it is given the processor
  and is not blocked.
\<close>

fun wants_lock :: "call_state \<Rightarrow> bool" where
  "wants_lock (At_lookup z) = True"
| "wants_lock (At_store z u h) = True"
| "wants_lock c = False"

definition blocked :: "call_state \<Rightarrow> caller option \<Rightarrow> bool" where
  "blocked c lock = (wants_lock c \<and> lock \<noteq> None)"

fun call_of :: "caller \<Rightarrow> system \<Rightarrow> call_state" where
  "call_of First (a, b, lock, w) = a"
| "call_of Second (a, b, lock, w) = b"

fun lock_of :: "system \<Rightarrow> caller option" where
  "lock_of (a, b, lock, w) = lock"

fun taken :: "caller \<Rightarrow> event list \<Rightarrow> system \<Rightarrow> (real \<times> (string \<Rightarrow> ydl_result)) list" where
  "taken me [] s = []"
| "taken me (ev # es) s =
     (if fst ev = me \<and> \<not> blocked (call_of me s) (lock_of s) then snd ev # taken me es (step ev s)
      else taken me es (step ev s))"










section \<open>An example deployment\<close>

text \<open>
  Concrete values on which the theorems below are instantiated: an identifier parser
  that accepts 24 hexadecimal digits, a database with one active video, a resolver that
  finds a stream URL, an upstream host that answers a range request, and a token issued
  100 seconds before it is presented.
\<close>

definition example_object_id :: "string \<Rightarrow> string option" where
  "example_object_id s =
     (if length s = 24 \<and> list_all (\<lambda>c. c \<in> set ''0123456789abcdefABCDEF'') s then Some s else None)"

definition example_video_id :: string where
  "example_video_id = ''65a1b2c3d4e5f60718293a4b''"

definition example_document :: document where
  "example_document =
     \<lparr>doc_title = Some ''Intro'',
      doc_description = Some ''First lesson'',
      doc_youtube_id = Some ''dQw4w9WgXcQ'',
      doc_thumbnail_url = Some ''https://img.example/1.jpg'',
      doc_is_active = None\<rparr>"

definition example_video :: video where
  "example_video =
     \<lparr>title = ''Intro'',
      description = ''First lesson'',
      youtube_id = ''dQw4w9WgXcQ'',
      thumbnail_url = ''https://img.example/1.jpg'',
      is_active = True\<rparr>"

definition example_find_one :: "string \<Rightarrow> find_result" where
  "example_find_one oid = (if oid = example_video_id then Found (Some example_document) else Found None)"

definition example_info :: info where
  "example_info =
     \<lparr>info_url = Some ''https://rr3.googlevideo.example/videoplayback?expire=9'',
      info_http_headers = Some [''User-Agent'' \<mapsto> ''Mozilla/5.0''],
      info_formats = []\<rparr>"

definition example_upstream :: upstream_response where
  "example_upstream =
     \<lparr>up_status = 206,
      up_headers =
        [''content-type'' \<mapsto> ''video/webm'',
         ''content-length'' \<mapsto> ''100'',
         ''content-range'' \<mapsto> ''bytes 100-199/1000'',
         ''set-cookie'' \<mapsto> ''VISITOR=abc''],
      up_chunks = [''abc'', [], ''de'']\<rparr>"

definition example_ext :: ext where
  "example_ext =
     \<lparr>JWT_SECRET_KEY = Some ''s3cret'',
      t_decode = 1000,
      t_lookup = 1001,
      t_store = 1002,
      ObjectId = example_object_id,
      find_one = example_find_one,
      extract_info = (\<lambda>u. ExtractInfo example_info),
      requests_get = (\<lambda>u h. Fetched example_upstream)\<rparr>"

definition example_token :: token where
  "example_token = generate_playback_token (Some ''s3cret'') 900 900 example_video_id ''user-1''"

definition example_claims :: claims where
  "example_claims =
     [''video_id'' \<mapsto> JStr example_video_id,
      ''user_id'' \<mapsto> JStr ''user-1'',
      ''type'' \<mapsto> JStr ''playback'',
      ''iat'' \<mapsto> JInt 900,
      ''exp'' \<mapsto> JInt 4500]"

definition example_request :: request where
  "example_request =
     \<lparr>arg_token = Some example_token, hdr_Range = Some ''bytes=100-199'', verify_jwt_in_request = Verified ''user-1''\<rparr>"

definition empty_world :: world where
  "empty_world = \<lparr>stream_cache = Map.empty, extract_calls = [], fetch_calls = []\<rparr>"

definition example_entry :: cache_entry where
  "example_entry =
     \<lparr>url = ''https://rr3.googlevideo.example/videoplayback?expire=9'',
      headers = [''User-Agent'' \<mapsto> ''Mozilla/5.0''],
      expires_at = 4602\<rparr>"

definition example_cached_world :: world where
  "example_cached_world =
     \<lparr>stream_cache = [''dQw4w9WgXcQ'' \<mapsto> example_entry], extract_calls = [], fetch_calls = []\<rparr>"

text \<open>A token issued for a path parameter that is not an object identifier.\<close>

definition example_malformed_id :: string where
  "example_malformed_id = ''not-an-object-id''"

definition example_malformed_id_request :: request where
  "example_malformed_id_request =
     \<lparr>arg_token = Some (generate_playback_token (Some ''s3cret'') 900 900 example_malformed_id ''user-1''),
      hdr_Range = None,
      verify_jwt_in_request = Verified ''user-1''\<rparr>"

text \<open>The example deployment with an upstream host that does not answer in time.\<close>

definition example_timeout_ext :: ext where
  "example_timeout_ext = example_ext\<lparr>requests_get := (\<lambda>u h. FetchTimeout)\<rparr>"

text \<open>The example deployment with a resolver that raises.\<close>

definition example_failing_ext :: ext where
  "example_failing_ext = example_ext\<lparr>extract_info := (\<lambda>u. ExtractRaises)\<rparr>"

text \<open>The example request with a \<open>Range\<close> header whose value is empty.\<close>

definition example_empty_range_request :: request where
  "example_empty_range_request = example_request\<lparr>hdr_Range := Some []\<rparr>"

text \<open>An info dictionary in which no URL is found.\<close>

definition example_info_without_url :: info where
  "example_info_without_url =
     \<lparr>info_url = None,
      info_http_headers = None,
      info_formats = [\<lparr>format_url = Some [], format_ext = Some ''mp4'', format_http_headers = None\<rparr>]\<rparr>"






definition example_schedule_contended :: "event list" where
  "example_schedule_contended =
     [(First, 10, \<lambda>u. ExtractInfo example_info),
      (Second, 11, \<lambda>u. ExtractInfo example_info)]"



section \<open>Properties of the token service\<close>

text \<open>
  A token that \<open>generate_playback_token\<close> issued decodes under the key it was signed
  with, from its issue time until its expiry, to the claims it was issued with.
\<close>

lemma jwt_decode_generated:
  assumes "real_of_int \<lfloor>t_iat\<rfloor> \<le> now" and "now < real_of_int (\<lfloor>t_exp\<rfloor> + 3600)"
  shows "jwt_decode (generate_playback_token env_key t_iat t_exp video_id user_id)
           (get_video_secret env_key) now
         = Inr [''video_id'' \<mapsto> JStr video_id, ''user_id'' \<mapsto> JStr user_id,
                ''type'' \<mapsto> JStr ''playback'', ''iat'' \<mapsto> JInt \<lfloor>t_iat\<rfloor>,
                ''exp'' \<mapsto> JInt (\<lfloor>t_exp\<rfloor> + 3600)]"
  using assms
  by (simp add: jwt_decode_def generate_playback_token_def jwt_encode_def validate_claims_def validate_iat_def
      validate_nbf_def validate_exp_def validate_aud_def py_int_def)

text \<open>
  With the matching subject, verification of an issued token succeeds under every
  configuration of the secret.
\<close>

lemma verify_generated:
  assumes "real_of_int \<lfloor>t_iat\<rfloor> \<le> now" and "now < real_of_int (\<lfloor>t_exp\<rfloor> + 3600)"
  shows "verify_playback_token env_key now
           (generate_playback_token env_key t_iat t_exp video_id user_id) video_id user_id
         = Some [''video_id'' \<mapsto> JStr video_id, ''user_id'' \<mapsto> JStr user_id,
                 ''type'' \<mapsto> JStr ''playback'', ''iat'' \<mapsto> JInt \<lfloor>t_iat\<rfloor>,
                 ''exp'' \<mapsto> JInt (\<lfloor>t_exp\<rfloor> + 3600)]"
  by (simp add: verify_playback_token_def jwt_decode_generated [OF assms])

text \<open>
  Without a subject, it succeeds when the environment variable \<open>JWT_SECRET_KEY\<close> is set.
\<close>

lemma verify_without_user_generated_env_set:
  assumes "real_of_int \<lfloor>t_iat\<rfloor> \<le> now" and "now < real_of_int (\<lfloor>t_exp\<rfloor> + 3600)"
  shows "verify_playback_token_without_user (Some k) now
           (generate_playback_token (Some k) t_iat t_exp video_id user_id) video_id
         = Some [''video_id'' \<mapsto> JStr video_id, ''user_id'' \<mapsto> JStr user_id,
                 ''type'' \<mapsto> JStr ''playback'', ''iat'' \<mapsto> JInt \<lfloor>t_iat\<rfloor>,
                 ''exp'' \<mapsto> JInt (\<lfloor>t_exp\<rfloor> + 3600)]"
  using jwt_decode_generated [OF assms, of "Some k" video_id user_id]
  by (simp add: verify_playback_token_without_user_def get_video_secret_def)

text \<open>
  Claim C1 (every issued token verifies on both verification paths, under every
  configuration of the secret, the default one included). With \<open>JWT_SECRET_KEY\<close>
  unset the claim fails on the path without a subject: \<open>generate_playback_token\<close>
  signs with \<open>video-secret-key-video\<close>, \<open>verify_playback_token_without_user\<close>
  checks against \<open>jwt-secret-key-video\<close>, and so it returns \<open>None\<close> for every
  token the process issues, at every verification time.
\<close>

theorem default_secret_token_rejected_without_user:
  "verify_playback_token_without_user None now
     (generate_playback_token None t_iat t_exp video_id user_id) video_id = None"
  by (simp add: verify_playback_token_without_user_def generate_playback_token_def
      jwt_encode_def jwt_decode_def get_video_secret_def)




lemma example_token_claims: "example_token = Signed ''s3cret-video'' example_claims"
  by (simp add: example_token_def example_claims_def generate_playback_token_def jwt_encode_def
      get_video_secret_def)




text \<open>\<open>int\<close> on strings, and the registered claims, on examples.\<close>

lemma py_int_of_str_examples:
  "py_int_of_str ''4500'' = Some 4500"
  "py_int_of_str '' 12 '' = Some 12"
  "py_int_of_str ''-5'' = Some (- 5)"
  "py_int_of_str ''+7'' = Some 7"
  "py_int_of_str ''1_000'' = Some 1000"
  "py_int_of_str ''1__0'' = None"
  "py_int_of_str ''_1'' = None"
  "py_int_of_str ''1_'' = None"
  "py_int_of_str ''4500.0'' = None"
  "py_int_of_str ''soon'' = None"
  "py_int_of_str [] = None"
  by code_simp+

lemma registered_claims_examples:
  "verify_playback_token (Some ''s3cret'') 1000
     (Signed ''s3cret-video'' (example_claims(''exp'' \<mapsto> JStr ''4500''))) example_video_id ''user-1''
   = Some (example_claims(''exp'' \<mapsto> JStr ''4500''))"
  "verify_playback_token (Some ''s3cret'') 4500
     (Signed ''s3cret-video'' (example_claims(''exp'' \<mapsto> JStr ''4500''))) example_video_id ''user-1''
   = None"
  "verify_playback_token (Some ''s3cret'') 1000
     (Signed ''s3cret-video'' (example_claims(''exp'' \<mapsto> JStr ''soon''))) example_video_id ''user-1''
   = None"
  "verify_playback_token (Some ''s3cret'') 1000
     (Signed ''s3cret-video'' (example_claims(''nbf'' \<mapsto> JInt 2000))) example_video_id ''user-1''
   = None"
  "verify_playback_token (Some ''s3cret'') 1000
     (Signed ''s3cret-video'' (example_claims(''aud'' \<mapsto> JStr ''app''))) example_video_id ''user-1''
   = None"
  "verify_playback_token (Some ''s3cret'') 1000
     (Signed ''s3cret-video'' (example_claims(''aud'' \<mapsto> JStr []))) example_video_id ''user-1''
   = Some (example_claims(''aud'' \<mapsto> JStr []))"
  by (simp_all add: verify_playback_token_def jwt_decode_def validate_claims_def validate_iat_def
        validate_nbf_def validate_exp_def validate_aud_def py_int_def json_truthy_def
        py_int_of_str_examples example_claims_def get_video_secret_def)

section \<open>Properties of the stream resolution cache\<close>

text \<open>The three outcomes of a cache lookup, and what a lookup leaves of the state.\<close>

lemma get_cached_fresh:
  "stream_cache w y = Some e \<Longrightarrow> now < expires_at e \<Longrightarrow>
   get_cached_stream_data now y w = (Some e, w)"
  by (simp add: get_cached_stream_data_def)

lemma get_cached_stale:
  "stream_cache w y = Some e \<Longrightarrow> expires_at e \<le> now \<Longrightarrow>
   get_cached_stream_data now y w = (None, w\<lparr>stream_cache := (stream_cache w)(y := None)\<rparr>)"
  by (simp add: get_cached_stream_data_def)

lemma get_cached_absent:
  "stream_cache w y = None \<Longrightarrow> get_cached_stream_data now y w = (None, w)"
  by (simp add: get_cached_stream_data_def)

lemma get_cached_logs:
  "extract_calls (snd (get_cached_stream_data now y w)) = extract_calls w"
  "fetch_calls (snd (get_cached_stream_data now y w)) = fetch_calls w"
  by (simp_all add: get_cached_stream_data_def split: option.splits)

lemma get_cached_miss_cache:
  "fst (get_cached_stream_data now y w) = None \<Longrightarrow>
   stream_cache (snd (get_cached_stream_data now y w)) = (stream_cache w)(y := None)"
  by (auto simp: get_cached_stream_data_def split: option.splits if_splits)

text \<open>\<open>_extract_stream_data\<close> after a cache hit and after a cache miss.\<close>

lemma extract_stream_data_hit:
  "get_cached_stream_data t1 y w = (Some e, w1) \<Longrightarrow>
   extract_stream_data ydl t1 t2 y w = ((Some (url e), Some (headers e)), w1)"
  by (simp add: extract_stream_data_def)

lemma extract_stream_data_miss:
  "get_cached_stream_data t1 y w = (None, w1) \<Longrightarrow>
   extract_stream_data ydl t1 t2 y w =
     (case ydl (youtube_url y) of
        ExtractRaises \<Rightarrow>
          ((None, None), w1\<lparr>extract_calls := extract_calls w1 @ [youtube_url y]\<rparr>)
      | ExtractInfo i \<Rightarrow>
          (case pick_stream i of
             Some (u, h) \<Rightarrow>
               ((Some u, Some h),
                cache_stream_data t2 y u h
                  (w1\<lparr>extract_calls := extract_calls w1 @ [youtube_url y]\<rparr>))
           | None \<Rightarrow>
               ((None, None), w1\<lparr>extract_calls := extract_calls w1 @ [youtube_url y]\<rparr>)))"
  by (simp add: extract_stream_data_def Let_def)

lemma extract_stream_data_miss_calls:
  "fst (get_cached_stream_data t1 y w) = None \<Longrightarrow>
   extract_calls (snd (extract_stream_data ydl t1 t2 y w))
   = extract_calls w @ [youtube_url y]"
  using get_cached_logs(1) [of t1 y w]
  by (cases "get_cached_stream_data t1 y w")
     (auto simp: extract_stream_data_miss cache_stream_data_def
           split: ydl_result.splits option.splits)

text \<open>
  Claim C6. An entry stored by \<open>_cache_stream_data\<close> at time \<open>t\<close> expires at
  \<open>t + 3600\<close>. For an entry \<open>e\<close> in the cache, a lookup at time \<open>now\<close> returns
  it exactly when \<open>now < expires_at e\<close>, and \<open>_extract_stream_data\<close> then returns
  its locator and leaves the state as it was, without a call of the resolver; the resolver
  log is unchanged exactly in that case. At or after \<open>expires_at e\<close> the lookup returns
  nothing and removes the entry, and \<open>_extract_stream_data\<close> calls the resolver.
\<close>

theorem cache_entry_lifetime:
  "stream_cache (cache_stream_data t y u h w) y
     = Some \<lparr>url = u, headers = h, expires_at = t + 3600\<rparr>
   \<and> (stream_cache w y = Some e \<longrightarrow>
        (fst (get_cached_stream_data now y w) = Some e) = (now < expires_at e)
        \<and> (extract_calls (snd (extract_stream_data ydl now t2 y w)) = extract_calls w)
            = (now < expires_at e)
        \<and> (now < expires_at e \<longrightarrow>
             extract_stream_data ydl now t2 y w = ((Some (url e), Some (headers e)), w))
        \<and> (expires_at e \<le> now \<longrightarrow>
             get_cached_stream_data now y w
               = (None, w\<lparr>stream_cache := (stream_cache w)(y := None)\<rparr>)
             \<and> extract_calls (snd (extract_stream_data ydl now t2 y w))
               = extract_calls w @ [youtube_url y]))"
proof -
  have stored: "stream_cache (cache_stream_data t y u h w) y
     = Some \<lparr>url = u, headers = h, expires_at = t + 3600\<rparr>"
    by (simp add: cache_stream_data_def CACHE_DURATION_def)
  have fresh: "extract_stream_data ydl now t2 y w = ((Some (url e), Some (headers e)), w)"
    if "stream_cache w y = Some e" "now < expires_at e"
    using that by (simp add: extract_stream_data_hit get_cached_fresh)
  have stale: "extract_calls (snd (extract_stream_data ydl now t2 y w))
               = extract_calls w @ [youtube_url y]"
    if "stream_cache w y = Some e" "expires_at e \<le> now"
    using that by (simp add: extract_stream_data_miss_calls get_cached_stale)
  have lookup: "(fst (get_cached_stream_data now y w) = Some e) = (now < expires_at e)"
    if "stream_cache w y = Some e"
    using that by (simp add: get_cached_stream_data_def)
  have resolver: "(extract_calls (snd (extract_stream_data ydl now t2 y w)) = extract_calls w)
            = (now < expires_at e)"
    if "stream_cache w y = Some e"
  proof (cases "now < expires_at e")
    case True
    with that show ?thesis by (simp add: fresh)
  next
    case False
    with that show ?thesis by (simp add: stale)
  qed
  show ?thesis
    by (intro conjI impI) (simp_all add: stored fresh stale lookup resolver get_cached_stale)
qed

theorem cache_entry_lifetime_witness:
  "stream_cache example_cached_world ''dQw4w9WgXcQ'' = Some example_entry
   \<and> (1001::real) < expires_at example_entry
   \<and> fst (get_cached_stream_data 1001 ''dQw4w9WgXcQ'' example_cached_world) = Some example_entry
   \<and> extract_stream_data (\<lambda>u. ExtractRaises) 1001 1002 ''dQw4w9WgXcQ'' example_cached_world
       = ((Some (url example_entry), Some (headers example_entry)), example_cached_world)
   \<and> expires_at example_entry \<le> 4602
   \<and> fst (get_cached_stream_data 4602 ''dQw4w9WgXcQ'' example_cached_world) \<noteq> Some example_entry
   \<and> get_cached_stream_data 4602 ''dQw4w9WgXcQ'' example_cached_world
       = (None, example_cached_world\<lparr>stream_cache :=
                  (stream_cache example_cached_world)(''dQw4w9WgXcQ'' := None)\<rparr>)
   \<and> extract_calls (snd (extract_stream_data (\<lambda>u. ExtractRaises) 4602 4603 ''dQw4w9WgXcQ''
          example_cached_world))
       = extract_calls example_cached_world @ [youtube_url ''dQw4w9WgXcQ'']"
proof -
  have c: "stream_cache example_cached_world ''dQw4w9WgXcQ'' = Some example_entry"
    by (simp add: example_cached_world_def)
  have f: "(1001::real) < expires_at example_entry"
    by (simp add: example_entry_def)
  have s: "expires_at example_entry \<le> 4602"
    by (simp add: example_entry_def)
  note fresh = cache_entry_lifetime [of 0 "''dQw4w9WgXcQ''" "[]" Map.empty example_cached_world
      example_entry 1001 "\<lambda>u. ExtractRaises" 1002]
  note stale = cache_entry_lifetime [of 0 "''dQw4w9WgXcQ''" "[]" Map.empty example_cached_world
      example_entry 4602 "\<lambda>u. ExtractRaises" 4603]
  from fresh c f have 1:
    "fst (get_cached_stream_data 1001 ''dQw4w9WgXcQ'' example_cached_world) = Some example_entry"
    "extract_stream_data (\<lambda>u. ExtractRaises) 1001 1002 ''dQw4w9WgXcQ'' example_cached_world
       = ((Some (url example_entry), Some (headers example_entry)), example_cached_world)"
    by simp_all
  from stale c s have 2:
    "fst (get_cached_stream_data 4602 ''dQw4w9WgXcQ'' example_cached_world) \<noteq> Some example_entry"
    "get_cached_stream_data 4602 ''dQw4w9WgXcQ'' example_cached_world
       = (None, example_cached_world\<lparr>stream_cache :=
                  (stream_cache example_cached_world)(''dQw4w9WgXcQ'' := None)\<rparr>)"
    "extract_calls (snd (extract_stream_data (\<lambda>u. ExtractRaises) 4602 4603 ''dQw4w9WgXcQ''
          example_cached_world))
       = extract_calls example_cached_world @ [youtube_url ''dQw4w9WgXcQ'']"
    by simp_all
  from c f s 1 2 show ?thesis
    by (intro conjI)
qed

text \<open>
  The selection finds no locator exactly when neither the info dictionary nor any of its
  formats has a non-empty URL; a locator it finds has a non-empty URL.
\<close>

lemma first_mp4_with_url_None:
  "first_with_url d fs = None \<Longrightarrow> first_mp4_with_url d fs = None"
  by (induction fs) (auto split: option.splits if_splits)

lemma first_with_url_None_iff:
  "first_with_url d fs = None \<longleftrightarrow> (\<forall>f \<in> set fs. \<not> truthy (format_url f))"
  by (induction fs) (auto simp: truthy_def split: option.splits)

lemma pick_stream_None_iff:
  "pick_stream i = None \<longleftrightarrow>
     \<not> truthy (info_url i) \<and> (\<forall>f \<in> set (info_formats i). \<not> truthy (format_url f))"
proof -
  have "(case first_mp4_with_url d fs of Some r \<Rightarrow> Some r | None \<Rightarrow> first_with_url d fs) = None
        \<longleftrightarrow> first_with_url d fs = None" for d fs
  proof (cases "first_mp4_with_url d fs")
    case None
    then show ?thesis by simp
  next
    case (Some r)
    have "first_with_url d fs \<noteq> None"
    proof
      assume "first_with_url d fs = None"
      from first_mp4_with_url_None [OF this] Some show False by simp
    qed
    with Some show ?thesis by simp
  qed
  then show ?thesis
    by (auto simp: pick_stream_def Let_def truthy_def first_with_url_None_iff
             split: option.splits)
qed

lemma first_mp4_with_url_nonempty: "first_mp4_with_url d fs = Some (u, h) \<Longrightarrow> u \<noteq> []"
  by (induction fs) (auto split: option.splits if_splits)

lemma first_with_url_nonempty: "first_with_url d fs = Some (u, h) \<Longrightarrow> u \<noteq> []"
  by (induction fs) (auto split: option.splits if_splits)

lemma pick_stream_url_nonempty: "pick_stream i = Some (u, h) \<Longrightarrow> u \<noteq> []"
  by (auto simp: pick_stream_def Let_def
           dest: first_mp4_with_url_nonempty first_with_url_nonempty
           split: option.splits if_splits)

lemma extract_stream_data_failed:
  assumes "fst (get_cached_stream_data t1 y w) = None"
    and "ydl (youtube_url y) = ExtractRaises
         \<or> (\<exists>i. ydl (youtube_url y) = ExtractInfo i \<and> pick_stream i = None)"
  shows "extract_stream_data ydl t1 t2 y w
         = ((None, None),
            (snd (get_cached_stream_data t1 y w))
              \<lparr>extract_calls := extract_calls w @ [youtube_url y]\<rparr>)"
  using assms get_cached_logs(1) [of t1 y w]
  by (cases "get_cached_stream_data t1 y w") (auto simp: extract_stream_data_miss)

section \<open>Properties of the handlers\<close>

text \<open>A resolution call never touches the log of upstream fetches.\<close>

lemma extract_stream_data_fetch_calls:
  "fetch_calls (snd (extract_stream_data ydl t1 t2 y w)) = fetch_calls w"
proof (cases "get_cached_stream_data t1 y w")
  case (Pair c w1)
  with get_cached_logs(2) [of t1 y w] have w1: "fetch_calls w1 = fetch_calls w" by simp
  show ?thesis
  proof (cases c)
    case None
    with Pair w1 show ?thesis
      by (auto simp: extract_stream_data_miss cache_stream_data_def
               split: ydl_result.splits option.splits)
  next
    case (Some e)
    with Pair w1 show ?thesis by (simp add: extract_stream_data_hit)
  qed
qed

text \<open>Tokens that no verification path accepts.\<close>

lemma verify_playback_token_Blob [simp]:
  "verify_playback_token env_key now (Blob s) video_id user_id = None"
  by (simp add: verify_playback_token_def jwt_decode_def)

lemma verify_playback_token_without_user_Blob [simp]:
  "verify_playback_token_without_user env_key now (Blob s) video_id = None"
  by (simp add: verify_playback_token_without_user_def jwt_decode_def)






lemma stream_video_verified:
  "verify_jwt_in_request req = Verified uid \<Longrightarrow>
   arg_token req = Some tok \<Longrightarrow>
   verify_playback_token (JWT_SECRET_KEY x) (t_decode x) tok video_id uid = Some c \<Longrightarrow>
   stream_video x req video_id w =
     (case find_by_id (ObjectId x) (find_one x) video_id of
        None \<Rightarrow> (json_error 404 ''Video not found'', w)
      | Some v \<Rightarrow>
          if \<not> is_active v then (json_error 404 ''Video is not available'', w)
          else
            (\<lparr>status = 200, resp_headers = Map.empty,
              body = Json_stream
                \<lparr>json_stream_url = (''/video/'' @ video_id @ ''/proxy?token='', tok),
                 json_video_id = video_id,
                 json_title = title v,
                 json_description = description v,
                 json_thumbnail_url = thumbnail_url v,
                 expires_in = 3600\<rparr>\<rparr>, w))"
  by (cases tok) (auto simp: stream_video_def)

lemma proxy_video_token_missing:
  "arg_token req = None \<or> arg_token req = Some (Blob []) \<Longrightarrow>
   proxy_video x req video_id w = (plain 400 ''Token required'', w)"
  by (auto simp: proxy_video_def)

lemma proxy_video_token_rejected:
  "arg_token req = Some tok \<Longrightarrow>
   verify_playback_token_without_user (JWT_SECRET_KEY x) (t_decode x) tok video_id = None \<Longrightarrow>
   status (fst (proxy_video x req video_id w)) = 400 \<and> snd (proxy_video x req video_id w) = w"
  by (simp add: proxy_video_def plain_def)

lemma proxy_video_not_found:
  "arg_token req = Some tok \<Longrightarrow>
   verify_playback_token_without_user (JWT_SECRET_KEY x) (t_decode x) tok video_id = Some c \<Longrightarrow>
   find_by_id (ObjectId x) (find_one x) video_id = None \<Longrightarrow>
   proxy_video x req video_id w = (plain 404 ''Video not found'', w)"
  by (cases tok) (auto simp: proxy_video_def)

lemma video_player_token_rejected:
  "arg_token req = Some tok \<Longrightarrow>
   verify_playback_token_without_user (JWT_SECRET_KEY x) (t_decode x) tok video_id = None \<Longrightarrow>
   status (fst (video_player x req video_id w)) = 400"
  by (simp add: video_player_def error_html_def)

lemma video_player_verified:
  "arg_token req = Some tok \<Longrightarrow>
   verify_playback_token_without_user (JWT_SECRET_KEY x) (t_decode x) tok video_id = Some c \<Longrightarrow>
   video_player x req video_id w =
     (case find_by_id (ObjectId x) (find_one x) video_id of
        None \<Rightarrow> (error_html 404 ''Video not found'', w)
      | Some v \<Rightarrow>
          if \<not> is_active v then (error_html 404 ''Video is not available'', w)
          else
            (\<lparr>status = 200,
              resp_headers =
                [''Content-Type'' \<mapsto> ''text/html'',
                 ''Cache-Control'' \<mapsto> ''no-store, no-cache, must-revalidate, max-age=0'',
                 ''Pragma'' \<mapsto> ''no-cache''],
              body = Html (player_html v)\<rparr>, w))"
  by (cases tok) (auto simp: video_player_def)




text \<open>
  Claim C10. When bson rejects the identifier string, \<open>Video.find_by_id\<close> returns
  \<open>None\<close> (the \<open>InvalidId\<close> exception is swallowed), and each of the three
  endpoints, given a token that verifies for that identifier (on the stream endpoint: for
  that identifier and the identity of the request's access token), answers 404 with the
  message \<open>Video not found\<close> and leaves the state alone.
\<close>

theorem malformed_id_not_found:
  assumes "ObjectId x video_id = None"
  shows "find_by_id (ObjectId x) (find_one x) video_id = None
         \<and> (verify_jwt_in_request req = Verified uid
              \<and> arg_token req = Some tok
              \<and> verify_playback_token (JWT_SECRET_KEY x) (t_decode x) tok video_id uid \<noteq> None
              \<longrightarrow> stream_video x req video_id w = (json_error 404 ''Video not found'', w))
         \<and> (arg_token req = Some tok
              \<and> verify_playback_token_without_user (JWT_SECRET_KEY x) (t_decode x) tok video_id
                   \<noteq> None
              \<longrightarrow> proxy_video x req video_id w = (plain 404 ''Video not found'', w)
                  \<and> video_player x req video_id w = (error_html 404 ''Video not found'', w))"
proof -
  from assms have nf: "find_by_id (ObjectId x) (find_one x) video_id = None"
    by (simp add: find_by_id_def)
  have s: "stream_video x req video_id w = (json_error 404 ''Video not found'', w)"
    if "verify_jwt_in_request req = Verified uid" "arg_token req = Some tok"
      "verify_playback_token (JWT_SECRET_KEY x) (t_decode x) tok video_id uid \<noteq> None"
    using that nf stream_video_verified [of req uid tok x video_id _ w] by auto
  have p: "proxy_video x req video_id w = (plain 404 ''Video not found'', w)
           \<and> video_player x req video_id w = (error_html 404 ''Video not found'', w)"
    if "arg_token req = Some tok"
      "verify_playback_token_without_user (JWT_SECRET_KEY x) (t_decode x) tok video_id \<noteq> None"
    using that nf proxy_video_not_found [of req tok x video_id _ w]
      video_player_verified [of req tok x video_id _ w]
    by auto
  from nf s p show ?thesis by blast
qed

lemma example_malformed_id_rejected: "ObjectId example_ext example_malformed_id = None"
  by (simp add: example_ext_def example_object_id_def example_malformed_id_def)

lemma example_malformed_id_token:
  "arg_token example_malformed_id_request
   = Some (generate_playback_token (Some ''s3cret'') 900 900 example_malformed_id ''user-1'')"
  by (simp add: example_malformed_id_request_def)

lemma example_malformed_id_identity:
  "verify_jwt_in_request example_malformed_id_request = Verified ''user-1''"
  by (simp add: example_malformed_id_request_def)

lemma example_malformed_id_verifies:
  "verify_playback_token (JWT_SECRET_KEY example_ext) (t_decode example_ext)
     (generate_playback_token (Some ''s3cret'') 900 900 example_malformed_id ''user-1'')
     example_malformed_id ''user-1'' \<noteq> None"
  "verify_playback_token_without_user (JWT_SECRET_KEY example_ext) (t_decode example_ext)
     (generate_playback_token (Some ''s3cret'') 900 900 example_malformed_id ''user-1'')
     example_malformed_id \<noteq> None"
  by (simp_all add: example_ext_def example_malformed_id_request_def verify_generated
      verify_without_user_generated_env_set)

theorem malformed_id_not_found_witness:
  "ObjectId example_ext example_malformed_id = None
   \<and> verify_jwt_in_request example_malformed_id_request = Verified ''user-1''
   \<and> verify_playback_token (JWT_SECRET_KEY example_ext) (t_decode example_ext)
        (generate_playback_token (Some ''s3cret'') 900 900 example_malformed_id ''user-1'')
        example_malformed_id ''user-1'' \<noteq> None
   \<and> verify_playback_token_without_user (JWT_SECRET_KEY example_ext) (t_decode example_ext)
        (generate_playback_token (Some ''s3cret'') 900 900 example_malformed_id ''user-1'')
        example_malformed_id \<noteq> None
   \<and> find_by_id (ObjectId example_ext) (find_one example_ext) example_malformed_id = None
   \<and> stream_video example_ext example_malformed_id_request example_malformed_id empty_world
       = (json_error 404 ''Video not found'', empty_world)
   \<and> proxy_video example_ext example_malformed_id_request example_malformed_id empty_world
       = (plain 404 ''Video not found'', empty_world)
   \<and> video_player example_ext example_malformed_id_request example_malformed_id empty_world
       = (error_html 404 ''Video not found'', empty_world)"
proof -
  note t = malformed_id_not_found [OF example_malformed_id_rejected,
      where req = example_malformed_id_request and uid = "''user-1''"
        and tok = "generate_playback_token (Some ''s3cret'') 900 900 example_malformed_id ''user-1''"
        and w = empty_world]
  from t have 1:
    "find_by_id (ObjectId example_ext) (find_one example_ext) example_malformed_id = None"
    by (rule conjunct1)
  from t example_malformed_id_identity example_malformed_id_token
    example_malformed_id_verifies(1) have 2:
    "stream_video example_ext example_malformed_id_request example_malformed_id empty_world
       = (json_error 404 ''Video not found'', empty_world)"
    by (elim conjE) (erule impE, intro conjI)
  from t example_malformed_id_token example_malformed_id_verifies(2) have 3:
    "proxy_video example_ext example_malformed_id_request example_malformed_id empty_world
       = (plain 404 ''Video not found'', empty_world)
     \<and> video_player example_ext example_malformed_id_request example_malformed_id empty_world
       = (error_html 404 ''Video not found'', empty_world)"
    by (elim conjE) (erule impE [where P = "_ \<and> verify_playback_token_without_user _ _ _ _ \<noteq> None"],
        rule conjI)
  from example_malformed_id_rejected example_malformed_id_identity
    example_malformed_id_verifies 1 2 3 show ?thesis
    by (elim conjE) (intro conjI, assumption+)
qed

text \<open>The example deployment, evaluated: its token verifies, its video is found.\<close>

lemma example_verify_without_user:
  "verify_playback_token_without_user (Some ''s3cret'') 1000 example_token example_video_id
   = Some example_claims"
  by (simp add: example_token_claims verify_playback_token_without_user_def jwt_decode_def
      validate_claims_def validate_iat_def validate_nbf_def validate_exp_def validate_aud_def py_int_def example_claims_def)

lemma example_verify:
  "verify_playback_token (Some ''s3cret'') 1000 example_token example_video_id ''user-1''
   = Some example_claims"
  by (simp add: example_token_claims verify_playback_token_def jwt_decode_def
      validate_claims_def validate_iat_def validate_nbf_def validate_exp_def validate_aud_def py_int_def example_claims_def get_video_secret_def)

lemma example_find_by_id:
  "find_by_id example_object_id example_find_one example_video_id = Some example_video"
  by (simp add: find_by_id_def example_object_id_def example_find_one_def example_video_id_def
      example_document_def example_video_def)

lemma example_extract:
  "extract_stream_data (\<lambda>u. ExtractInfo example_info) 1001 1002 ''dQw4w9WgXcQ'' empty_world
   = ((Some (url example_entry), Some (headers example_entry)),
      \<lparr>stream_cache = [''dQw4w9WgXcQ'' \<mapsto> example_entry],
       extract_calls = [youtube_url ''dQw4w9WgXcQ''],
       fetch_calls = []\<rparr>)"
  by (simp add: extract_stream_data_def get_cached_stream_data_def empty_world_def
      pick_stream_def example_info_def cache_stream_data_def CACHE_DURATION_def example_entry_def)

text \<open>
  The player page holds the video's \<open>youtube_id\<close> (as the \<open>videoId\<close> of the
  embedded player) and the URL of the upstream host's script.
\<close>

lemma sublist_youtube_id: "sublist (youtube_id v) (player_html v)"
proof -
  have "player_html v =
          (player_page_head @ title v @ player_page_style_and_controls @ player_page_script_open)
            @ youtube_id v @ player_page_script_rest"
    by (simp only: player_html_def append_assoc)
  then show ?thesis
    by (simp only: sublist_appendI)
qed

lemma sublist_iframe_api_script: "sublist youtube_iframe_api player_page_script_open"
  unfolding player_page_script_open_def by (rule sublist_appendI)

lemma sublist_iframe_api: "sublist youtube_iframe_api (player_html v)"
proof -
  have "player_html v =
          (player_page_head @ title v @ player_page_style_and_controls)
            @ player_page_script_open @ (youtube_id v @ player_page_script_rest)"
    by (simp only: player_html_def append_assoc)
  then have "sublist player_page_script_open (player_html v)"
    by (simp only: sublist_appendI)
  with sublist_iframe_api_script show ?thesis
    by (rule sublist_order.order.trans)
qed

lemma example_player_page:
  "video_player example_ext example_request example_video_id empty_world =
     (\<lparr>status = 200,
       resp_headers =
         [''Content-Type'' \<mapsto> ''text/html'',
          ''Cache-Control'' \<mapsto> ''no-store, no-cache, must-revalidate, max-age=0'',
          ''Pragma'' \<mapsto> ''no-cache''],
       body = Html (player_html example_video)\<rparr>, empty_world)"
proof -
  have tok: "arg_token example_request = Some example_token"
    by (simp add: example_request_def)
  have c: "verify_playback_token_without_user (JWT_SECRET_KEY example_ext) (t_decode example_ext)
             example_token example_video_id = Some example_claims"
    by (simp add: example_ext_def example_verify_without_user)
  have v: "find_by_id (ObjectId example_ext) (find_one example_ext) example_video_id
           = Some example_video"
    by (simp add: example_ext_def example_find_by_id)
  have a: "is_active example_video"
    by (simp add: example_video_def)
  show ?thesis
    by (simp add: video_player_verified [OF tok c] v a)
qed

text \<open>
  Claim C2, as the code has it: the HTML page the player endpoint returns with status 200
  is the player template filled in for the video the path names, and it contains that
  video's \<open>youtube_id\<close> and the upstream-host URL
  \<open>https://www.youtube.com/iframe_api\<close>.
\<close>

theorem player_page_embeds_youtube_id:
  assumes "status (fst (video_player x req video_id w)) = 200"
  shows "\<exists>v. find_by_id (ObjectId x) (find_one x) video_id = Some v
             \<and> body (fst (video_player x req video_id w)) = Html (player_html v)
             \<and> sublist (youtube_id v) (player_html v)
             \<and> sublist youtube_iframe_api (player_html v)"
proof -
  from assms obtain tok where tok: "arg_token req = Some tok"
    by (cases "arg_token req") (auto simp: video_player_def error_html_def)
  from assms tok obtain c where
    c: "verify_playback_token_without_user (JWT_SECRET_KEY x) (t_decode x) tok video_id = Some c"
    using video_player_token_rejected [of req tok x video_id w]
    by (cases "verify_playback_token_without_user (JWT_SECRET_KEY x) (t_decode x) tok video_id") auto
  from assms video_player_verified [OF tok c, of w] obtain v where
    v: "find_by_id (ObjectId x) (find_one x) video_id = Some v" "is_active v"
    by (cases "find_by_id (ObjectId x) (find_one x) video_id")
       (auto simp: error_html_def split: if_splits)
  with video_player_verified [OF tok c, of w]
  have "body (fst (video_player x req video_id w)) = Html (player_html v)"
    by simp
  with v(1) sublist_youtube_id [of v] sublist_iframe_api [of v] show ?thesis
    by blast
qed

theorem player_page_embeds_youtube_id_witness:
  "status (fst (video_player example_ext example_request example_video_id empty_world)) = 200
   \<and> (\<exists>v. find_by_id (ObjectId example_ext) (find_one example_ext) example_video_id = Some v
          \<and> body (fst (video_player example_ext example_request example_video_id empty_world))
              = Html (player_html v)
          \<and> sublist (youtube_id v) (player_html v)
          \<and> sublist youtube_iframe_api (player_html v))"
proof -
  have s: "status (fst (video_player example_ext example_request example_video_id empty_world)) = 200"
    by (simp add: example_player_page)
  from s player_page_embeds_youtube_id [OF s] show ?thesis
    by (rule conjI)
qed

text \<open>
  Claim C2 as stated (the body contains neither the \<open>youtube_id\<close> nor an upstream-host
  URL) fails for the example video, whose identifier \<open>dQw4w9WgXcQ\<close> and the script
  URL both occur in the page returned with status 200.
\<close>

theorem player_page_reveals_upstream:
  "status (fst (video_player example_ext example_request example_video_id empty_world)) = 200
   \<and> body (fst (video_player example_ext example_request example_video_id empty_world))
       = Html (player_html example_video)
   \<and> youtube_id example_video = ''dQw4w9WgXcQ''
   \<and> sublist ''dQw4w9WgXcQ'' (player_html example_video)
   \<and> sublist ''https://www.youtube.com/iframe_api'' (player_html example_video)"
proof -
  have y: "youtube_id example_video = ''dQw4w9WgXcQ''"
    by (simp add: example_video_def)
  from sublist_youtube_id [of example_video] y
  have 1: "sublist ''dQw4w9WgXcQ'' (player_html example_video)"
    by simp
  from sublist_iframe_api [of example_video]
  have 2: "sublist ''https://www.youtube.com/iframe_api'' (player_html example_video)"
    by (simp only: youtube_iframe_api_def)
  show ?thesis
    using y 1 2 by (simp add: example_player_page)
qed

text \<open>
  The proxy endpoint once the token is verified and the video found, and what is known
  of a request that reached the upstream fetch: the video is active, the resolution gave
  the non-empty URL that was fetched, and the response is decided by the fetch alone.
\<close>

lemma proxy_video_verified:
  assumes "arg_token req = Some tok"
    and "verify_playback_token_without_user (JWT_SECRET_KEY x) (t_decode x) tok video_id = Some c"
    and "find_by_id (ObjectId x) (find_one x) video_id = Some v"
  shows "proxy_video x req video_id w =
     (if \<not> is_active v then (plain 404 ''Video not available'', w)
      else
        (case extract_stream_data (extract_info x) (t_lookup x) (t_store x) (youtube_id v) w of
           ((Some stream_url, stream_headers), w1) \<Rightarrow>
             if stream_url = [] then (plain 500 ''Failed to get video stream'', w1)
             else
               (let range_header = hdr_Range req;
                    req_headers = (case stream_headers of None \<Rightarrow> Map.empty | Some h \<Rightarrow> h);
                    req_headers =
                      (case range_header of
                         None \<Rightarrow> req_headers
                       | Some r \<Rightarrow> if r \<noteq> [] then req_headers(''Range'' \<mapsto> r) else req_headers);
                    w2 = w1\<lparr>fetch_calls := fetch_calls w1 @ [(stream_url, req_headers)]\<rparr>
                in case requests_get x stream_url req_headers of
                     FetchTimeout \<Rightarrow> (plain 504 ''Stream timeout'', w2)
                   | FetchError \<Rightarrow> (plain 500 ''Failed to stream video'', w2)
                   | Fetched resp \<Rightarrow>
                       (\<lparr>status = proxy_status_code range_header (up_status resp),
                         resp_headers = proxy_response_headers (up_headers resp),
                         body = Streamed (filter (\<lambda>chunk. chunk \<noteq> []) (up_chunks resp))\<rparr>,
                        w2))
         | ((None, stream_headers), w1) \<Rightarrow> (plain 500 ''Failed to get video stream'', w1)))"
  using assms by (cases tok) (auto simp: proxy_video_def)

lemma proxy_video_fetched:
  assumes run: "proxy_video x req video_id w = (r, w')"
    and fetch: "fetch_calls w' = fetch_calls w @ [(u, hs)]"
  shows "\<exists>v sh w1.
           find_by_id (ObjectId x) (find_one x) video_id = Some v \<and> is_active v
           \<and> extract_stream_data (extract_info x) (t_lookup x) (t_store x) (youtube_id v) w
               = ((Some u, sh), w1)
           \<and> u \<noteq> []
           \<and> w' = w1\<lparr>fetch_calls := fetch_calls w1 @ [(u, hs)]\<rparr>
           \<and> r = (case requests_get x u hs of
                     FetchTimeout \<Rightarrow> plain 504 ''Stream timeout''
                   | FetchError \<Rightarrow> plain 500 ''Failed to stream video''
                   | Fetched resp \<Rightarrow>
                       \<lparr>status = proxy_status_code (hdr_Range req) (up_status resp),
                        resp_headers = proxy_response_headers (up_headers resp),
                        body = Streamed (filter (\<lambda>chunk. chunk \<noteq> []) (up_chunks resp))\<rparr>)"
proof -
  from run fetch obtain tok where tok: "arg_token req = Some tok"
    by (cases "arg_token req") (auto simp: proxy_video_token_missing)
  from run fetch tok obtain c where
    c: "verify_playback_token_without_user (JWT_SECRET_KEY x) (t_decode x) tok video_id = Some c"
    using proxy_video_token_rejected [of req tok x video_id w]
    by (cases "verify_playback_token_without_user (JWT_SECRET_KEY x) (t_decode x) tok video_id") auto
  from run fetch obtain v where v: "find_by_id (ObjectId x) (find_one x) video_id = Some v"
    using proxy_video_not_found [OF tok c, of w]
    by (cases "find_by_id (ObjectId x) (find_one x) video_id") auto
  note pv = proxy_video_verified [OF tok c v, of w]
  from run fetch pv have act: "is_active v"
    by (auto split: if_splits)
  obtain su sh w1 where
    ex: "extract_stream_data (extract_info x) (t_lookup x) (t_store x) (youtube_id v) w
         = ((su, sh), w1)"
    by (metis surj_pair)
  from extract_stream_data_fetch_calls [of "extract_info x" "t_lookup x" "t_store x" "youtube_id v" w]
    ex have w1: "fetch_calls w1 = fetch_calls w"
    by simp
  from run fetch pv act ex w1 obtain s where s: "su = Some s" "s \<noteq> []"
    by (cases su) (auto split: if_splits)
  define rh where "rh = (case sh of None \<Rightarrow> Map.empty | Some h \<Rightarrow> h)"
  define rh' where "rh' = (case hdr_Range req of None \<Rightarrow> rh
                           | Some rg \<Rightarrow> if rg \<noteq> [] then rh(''Range'' \<mapsto> rg) else rh)"
  from run pv act ex s have
    res: "(r, w') = (case requests_get x s rh' of
                     FetchTimeout \<Rightarrow> (plain 504 ''Stream timeout'',
                        w1\<lparr>fetch_calls := fetch_calls w1 @ [(s, rh')]\<rparr>)
                   | FetchError \<Rightarrow> (plain 500 ''Failed to stream video'',
                        w1\<lparr>fetch_calls := fetch_calls w1 @ [(s, rh')]\<rparr>)
                   | Fetched resp \<Rightarrow>
                       (\<lparr>status = proxy_status_code (hdr_Range req) (up_status resp),
                         resp_headers = proxy_response_headers (up_headers resp),
                         body = Streamed (filter (\<lambda>chunk. chunk \<noteq> []) (up_chunks resp))\<rparr>,
                        w1\<lparr>fetch_calls := fetch_calls w1 @ [(s, rh')]\<rparr>))"
    unfolding rh_def rh'_def by (simp add: Let_def)
  then have w': "w' = w1\<lparr>fetch_calls := fetch_calls w1 @ [(s, rh')]\<rparr>"
    by (cases "requests_get x s rh'") auto
  with fetch w1 have eq: "u = s" "hs = rh'"
    by auto
  from res eq have "r = (case requests_get x u hs of
                     FetchTimeout \<Rightarrow> plain 504 ''Stream timeout''
                   | FetchError \<Rightarrow> plain 500 ''Failed to stream video''
                   | Fetched resp \<Rightarrow>
                       \<lparr>status = proxy_status_code (hdr_Range req) (up_status resp),
                        resp_headers = proxy_response_headers (up_headers resp),
                        body = Streamed (filter (\<lambda>chunk. chunk \<noteq> []) (up_chunks resp))\<rparr>)"
    by (cases "requests_get x s rh'") auto
  with v act ex s w' eq show ?thesis
    by blast
qed

text \<open>The headers and the status code of a relayed response.\<close>

lemma proxy_response_headers_fixed:
  "proxy_response_headers up ''Accept-Ranges'' = Some ''bytes''"
  "proxy_response_headers up ''Access-Control-Allow-Origin'' = Some ''*''"
  by (simp_all add: proxy_response_headers_def Let_def split: option.splits)

lemma proxy_response_headers_content_type:
  "proxy_response_headers up ''Content-Type''
   = Some (case ci_get up ''Content-Type'' of None \<Rightarrow> ''video/mp4'' | Some t \<Rightarrow> t)"
  by (simp add: proxy_response_headers_def Let_def split: option.splits)

lemma proxy_response_headers_propagated:
  "proxy_response_headers up ''Content-Length'' = ci_get up ''Content-Length''"
  "proxy_response_headers up ''Content-Range'' = ci_get up ''Content-Range''"
  by (simp_all add: proxy_response_headers_def Let_def split: option.splits)

lemma proxy_response_headers_dom:
  "dom (proxy_response_headers up)
   \<subseteq> {''Content-Type'', ''Accept-Ranges'', ''Access-Control-Allow-Origin'',
       ''Content-Length'', ''Content-Range''}"
  by (auto simp: proxy_response_headers_def Let_def split: option.splits if_splits)

lemma proxy_status_code_206:
  "(proxy_status_code rh st = 206) = ((\<exists>rg. rh = Some rg \<and> rg \<noteq> []) \<and> st = 206)"
  by (auto simp: proxy_status_code_def truthy_def split: option.splits)

lemma proxy_status_code_values:
  "proxy_status_code rh st = 206 \<or> proxy_status_code rh st = 200"
  by (simp add: proxy_status_code_def)

text \<open>The proxy endpoint on the example deployment.\<close>

lemma example_proxy_stage:
  assumes "arg_token req = Some example_token"
    and x: "JWT_SECRET_KEY x = Some ''s3cret''" "t_decode x = 1000"
      "ObjectId x = example_object_id" "find_one x = example_find_one"
  shows "proxy_video x req example_video_id w =
     (case extract_stream_data (extract_info x) (t_lookup x) (t_store x) ''dQw4w9WgXcQ'' w of
           ((Some stream_url, stream_headers), w1) \<Rightarrow>
             if stream_url = [] then (plain 500 ''Failed to get video stream'', w1)
             else
               (let range_header = hdr_Range req;
                    req_headers = (case stream_headers of None \<Rightarrow> Map.empty | Some h \<Rightarrow> h);
                    req_headers =
                      (case range_header of
                         None \<Rightarrow> req_headers
                       | Some r \<Rightarrow> if r \<noteq> [] then req_headers(''Range'' \<mapsto> r) else req_headers);
                    w2 = w1\<lparr>fetch_calls := fetch_calls w1 @ [(stream_url, req_headers)]\<rparr>
                in case requests_get x stream_url req_headers of
                     FetchTimeout \<Rightarrow> (plain 504 ''Stream timeout'', w2)
                   | FetchError \<Rightarrow> (plain 500 ''Failed to stream video'', w2)
                   | Fetched resp \<Rightarrow>
                       (\<lparr>status = proxy_status_code range_header (up_status resp),
                         resp_headers = proxy_response_headers (up_headers resp),
                         body = Streamed (filter (\<lambda>chunk. chunk \<noteq> []) (up_chunks resp))\<rparr>,
                        w2))
         | ((None, stream_headers), w1) \<Rightarrow> (plain 500 ''Failed to get video stream'', w1))"
proof -
  have c: "verify_playback_token_without_user (JWT_SECRET_KEY x) (t_decode x) example_token
             example_video_id = Some example_claims"
    by (simp add: x example_verify_without_user)
  have v: "find_by_id (ObjectId x) (find_one x) example_video_id = Some example_video"
    by (simp add: x example_find_by_id)
  have y: "youtube_id example_video = ''dQw4w9WgXcQ''" "is_active example_video"
    by (simp_all add: example_video_def)
  show ?thesis
    unfolding proxy_video_verified [OF assms(1) c v]
    by (simp only: y if_False not_True_eq_False)
qed

lemma example_ext_fields:
  "JWT_SECRET_KEY example_ext = Some ''s3cret''" "t_decode example_ext = 1000"
  "ObjectId example_ext = example_object_id" "find_one example_ext = example_find_one"
  by (simp_all add: example_ext_def)

lemma example_ext_extract:
  "extract_stream_data (extract_info example_ext) (t_lookup example_ext) (t_store example_ext)
     ''dQw4w9WgXcQ'' empty_world
   = ((Some (url example_entry), Some (headers example_entry)),
      \<lparr>stream_cache = [''dQw4w9WgXcQ'' \<mapsto> example_entry],
       extract_calls = [youtube_url ''dQw4w9WgXcQ''],
       fetch_calls = []\<rparr>)"
  by (simp add: example_ext_def example_extract)

lemma example_request_token: "arg_token example_request = Some example_token"
  by (simp add: example_request_def)

lemma example_proxy_response:
  "proxy_video example_ext example_request example_video_id empty_world =
     (\<lparr>status = 206,
       resp_headers = proxy_response_headers (up_headers example_upstream),
       body = Streamed [''abc'', ''de'']\<rparr>,
      \<lparr>stream_cache = [''dQw4w9WgXcQ'' \<mapsto> example_entry],
       extract_calls = [youtube_url ''dQw4w9WgXcQ''],
       fetch_calls = [(url example_entry, (headers example_entry)(''Range'' \<mapsto> ''bytes=100-199''))]\<rparr>)"
proof -
  have u: "url example_entry \<noteq> []"
    by (simp add: example_entry_def)
  have r: "hdr_Range example_request = Some ''bytes=100-199''"
    by (simp add: example_request_def)
  have g: "requests_get example_ext = (\<lambda>u h. Fetched example_upstream)"
    by (simp add: example_ext_def)
  have p: "proxy_status_code (Some ''bytes=100-199'') (up_status example_upstream) = 206"
    "filter (\<lambda>chunk. chunk \<noteq> []) (up_chunks example_upstream) = [''abc'', ''de'']"
    by (simp_all add: proxy_status_code_def truthy_def example_upstream_def)
  show ?thesis
    by (simp add: example_proxy_stage [OF example_request_token example_ext_fields]
        example_ext_extract u r g p Let_def)
qed

text \<open>
  Claim C9, as the code has it. For a proxy request whose upstream fetch returned a
  response, the relayed response sets \<open>Accept-Ranges: bytes\<close> and
  \<open>Access-Control-Allow-Origin: *\<close>, takes \<open>Content-Type\<close> from upstream with the
  default \<open>video/mp4\<close>, carries \<open>Content-Length\<close> and \<open>Content-Range\<close> exactly
  when upstream has them, has no header beyond these five, and has status 206 exactly
  when the client's \<open>Range\<close> header is present with a non-empty value and upstream
  answered 206, and status 200 otherwise.
\<close>

theorem proxy_relay_headers_and_status:
  assumes "proxy_video x req video_id w = (r, w')"
    and "fetch_calls w' = fetch_calls w @ [(u, hs)]"
    and "requests_get x u hs = Fetched resp"
  shows "resp_headers r ''Accept-Ranges'' = Some ''bytes''
         \<and> resp_headers r ''Access-Control-Allow-Origin'' = Some ''*''
         \<and> resp_headers r ''Content-Type''
             = Some (case ci_get (up_headers resp) ''Content-Type'' of
                       None \<Rightarrow> ''video/mp4'' | Some t \<Rightarrow> t)
         \<and> resp_headers r ''Content-Length'' = ci_get (up_headers resp) ''Content-Length''
         \<and> resp_headers r ''Content-Range'' = ci_get (up_headers resp) ''Content-Range''
         \<and> dom (resp_headers r)
             \<subseteq> {''Content-Type'', ''Accept-Ranges'', ''Access-Control-Allow-Origin'',
                 ''Content-Length'', ''Content-Range''}
         \<and> (status r = 206)
             = ((\<exists>rg. hdr_Range req = Some rg \<and> rg \<noteq> []) \<and> up_status resp = 206)
         \<and> (status r = 206 \<or> status r = 200)"
proof -
  from proxy_video_fetched [OF assms(1,2)] assms(3)
  have r: "r = \<lparr>status = proxy_status_code (hdr_Range req) (up_status resp),
                resp_headers = proxy_response_headers (up_headers resp),
                body = Streamed (filter (\<lambda>chunk. chunk \<noteq> []) (up_chunks resp))\<rparr>"
    by auto
  show ?thesis
    unfolding r
    using proxy_status_code_values [of "hdr_Range req" "up_status resp"]
      proxy_response_headers_dom [of "up_headers resp"]
    by (simp add: proxy_response_headers_fixed proxy_response_headers_content_type
        proxy_response_headers_propagated proxy_status_code_206)
qed

lemma empty_logs: "extract_calls empty_world = []" "fetch_calls empty_world = []"
  by (simp_all add: empty_world_def)

lemma lower_header_names:
  "map lower_char ''Content-Type'' = ''content-type''"
  "map lower_char ''Content-Length'' = ''content-length''"
  "map lower_char ''Content-Range'' = ''content-range''"
  by code_simp+

theorem proxy_relay_headers_and_status_witness:
  "fetch_calls (snd (proxy_video example_ext example_request example_video_id empty_world))
     = fetch_calls empty_world
         @ [(url example_entry, (headers example_entry)(''Range'' \<mapsto> ''bytes=100-199''))]
   \<and> requests_get example_ext (url example_entry)
         ((headers example_entry)(''Range'' \<mapsto> ''bytes=100-199'')) = Fetched example_upstream
   \<and> resp_headers (fst (proxy_video example_ext example_request example_video_id empty_world))
         ''Accept-Ranges'' = Some ''bytes''
   \<and> resp_headers (fst (proxy_video example_ext example_request example_video_id empty_world))
         ''Content-Type'' = Some ''video/webm''
   \<and> resp_headers (fst (proxy_video example_ext example_request example_video_id empty_world))
         ''Content-Range'' = Some ''bytes 100-199/1000''
   \<and> resp_headers (fst (proxy_video example_ext example_request example_video_id empty_world))
         ''Set-Cookie'' = None
   \<and> hdr_Range example_request = Some ''bytes=100-199''
   \<and> up_status example_upstream = 206
   \<and> status (fst (proxy_video example_ext example_request example_video_id empty_world)) = 206"
proof -
  let ?p = "proxy_video example_ext example_request example_video_id empty_world"
  let ?hs = "(headers example_entry)(''Range'' \<mapsto> ''bytes=100-199'')"
  have run: "?p = (fst ?p, snd ?p)"
    by simp
  have fetch: "fetch_calls (snd ?p) = fetch_calls empty_world @ [(url example_entry, ?hs)]"
    using empty_logs by (simp add: example_proxy_response)
  have got: "requests_get example_ext (url example_entry) ?hs = Fetched example_upstream"
    by (simp add: example_ext_def)
  have rg: "hdr_Range example_request = Some ''bytes=100-199''"
    by (simp add: example_request_def)
  have up: "up_status example_upstream = 206"
    by (simp add: example_upstream_def)
  have ci: "ci_get (up_headers example_upstream) ''Content-Type'' = Some ''video/webm''"
    "ci_get (up_headers example_upstream) ''Content-Range'' = Some ''bytes 100-199/1000''"
    by (simp_all only: ci_get_def lower_header_names) (simp_all add: example_upstream_def)
  note t = proxy_relay_headers_and_status [OF run fetch got]
  note t1 = t [THEN conjunct1]
  note t3 = t [THEN conjunct2, THEN conjunct2, THEN conjunct1]
  note t5 = t [THEN conjunct2, THEN conjunct2, THEN conjunct2, THEN conjunct2, THEN conjunct1]
  note t6 = t [THEN conjunct2, THEN conjunct2, THEN conjunct2, THEN conjunct2, THEN conjunct2,
      THEN conjunct1]
  note t7 = t [THEN conjunct2, THEN conjunct2, THEN conjunct2, THEN conjunct2, THEN conjunct2,
      THEN conjunct2, THEN conjunct1]
  from t3 have 2: "resp_headers (fst ?p) ''Content-Type'' = Some ''video/webm''"
    by (simp only: ci option.case)
  from t5 have 3: "resp_headers (fst ?p) ''Content-Range'' = Some ''bytes 100-199/1000''"
    by (simp only: ci)
  have "''Set-Cookie'' \<notin> {''Content-Type'', ''Accept-Ranges'', ''Access-Control-Allow-Origin'',
          ''Content-Length'', ''Content-Range''}"
    by simp
  with t6 have "''Set-Cookie'' \<notin> dom (resp_headers (fst ?p))"
    by (rule_tac notI) (erule notE, erule (1) subsetD)
  then have 4: "resp_headers (fst ?p) ''Set-Cookie'' = None"
    by (simp only: domIff not_not)
  have "(\<exists>rg. hdr_Range example_request = Some rg \<and> rg \<noteq> []) \<and> up_status example_upstream = 206"
    by (simp add: rg up)
  with t7 have 5: "status (fst ?p) = 206"
    by (rule_tac iffD2)
  from fetch got t1 2 3 4 rg up 5 show ?thesis
    by (intro conjI)
qed

text \<open>
  Claim C9 as stated (206 if and only if the client supplied a \<open>Range\<close> header and
  upstream answered 206) fails for a \<open>Range\<close> header with an empty value: the header
  is supplied, upstream answers 206, and the relayed status is 200, because
  \<open>if range_header\<close> tests the value for truth.
\<close>

lemma example_empty_range_response:
  "proxy_video example_ext example_empty_range_request example_video_id empty_world =
     (\<lparr>status = 200,
       resp_headers = proxy_response_headers (up_headers example_upstream),
       body = Streamed [''abc'', ''de'']\<rparr>,
      \<lparr>stream_cache = [''dQw4w9WgXcQ'' \<mapsto> example_entry],
       extract_calls = [youtube_url ''dQw4w9WgXcQ''],
       fetch_calls = [(url example_entry, headers example_entry)]\<rparr>)"
proof -
  have tok: "arg_token example_empty_range_request = Some example_token"
    by (simp add: example_empty_range_request_def example_request_def)
  have u: "url example_entry \<noteq> []"
    by (simp add: example_entry_def)
  have r: "hdr_Range example_empty_range_request = Some []"
    by (simp add: example_empty_range_request_def)
  have g: "requests_get example_ext = (\<lambda>u h. Fetched example_upstream)"
    by (simp add: example_ext_def)
  have p: "proxy_status_code (Some []) (up_status example_upstream) = 200"
    "filter (\<lambda>chunk. chunk \<noteq> []) (up_chunks example_upstream) = [''abc'', ''de'']"
    by (simp_all add: proxy_status_code_def truthy_def example_upstream_def)
  show ?thesis
    by (simp add: example_proxy_stage [OF tok example_ext_fields]
        example_ext_extract u r g p Let_def)
qed

theorem empty_range_header_answered_200:
  "hdr_Range example_empty_range_request = Some []
   \<and> fetch_calls (snd (proxy_video example_ext example_empty_range_request example_video_id
          empty_world))
       = [(url example_entry, headers example_entry)]
   \<and> requests_get example_ext (url example_entry) (headers example_entry)
       = Fetched example_upstream
   \<and> up_status example_upstream = 206
   \<and> status (fst (proxy_video example_ext example_empty_range_request example_video_id
          empty_world)) = 200"
proof -
  have 1: "hdr_Range example_empty_range_request = Some []"
    by (simp add: example_empty_range_request_def)
  have 2: "requests_get example_ext (url example_entry) (headers example_entry)
           = Fetched example_upstream"
    by (simp add: example_ext_def)
  have 3: "up_status example_upstream = 206"
    by (simp add: example_upstream_def)
  show ?thesis
    using 1 2 3 by (simp add: example_empty_range_response)
qed

text \<open>What a successful resolution call leaves in the cache.\<close>

lemma get_cached_hit_state:
  "fst (get_cached_stream_data now y w) = Some e \<Longrightarrow> get_cached_stream_data now y w = (Some e, w)"
  by (auto simp: get_cached_stream_data_def split: option.splits if_splits)

lemma extract_stream_data_cache:
  assumes "extract_stream_data ydl t1 t2 y w = ((Some u, sh), w1)"
  shows "case fst (get_cached_stream_data t1 y w) of
           Some e \<Rightarrow> stream_cache w1 = stream_cache w \<and> u = url e
         | None \<Rightarrow>
             \<exists>h. sh = Some h
                 \<and> stream_cache w1
                     = (stream_cache w)(y \<mapsto> \<lparr>url = u, headers = h, expires_at = t2 + 3600\<rparr>)"
proof (cases "fst (get_cached_stream_data t1 y w)")
  case (Some e)
  from get_cached_hit_state [OF Some] assms show ?thesis
    by (simp add: Some extract_stream_data_hit)
next
  case None
  obtain wc where wc: "get_cached_stream_data t1 y w = (None, wc)"
    using None by (cases "get_cached_stream_data t1 y w") simp
  from get_cached_miss_cache [OF None] wc
  have c: "stream_cache wc = (stream_cache w)(y := None)"
    by simp
  from assms wc c show ?thesis
    by (auto simp: None extract_stream_data_miss cache_stream_data_def CACHE_DURATION_def
             split: ydl_result.splits option.splits)
qed

text \<open>
  Claim C5, as the code has it. A proxy request whose upstream fetch times out is
  answered with status 504. The resolution ran before the fetch and the timeout handler
  does not touch the cache: when the lookup found a fresh entry the cache is as it was
  before the request, and otherwise the cache now holds, for the video's
  \<open>youtube_id\<close>, the entry this request resolved (the URL that was fetched, expiring
  3600 seconds after the store).
\<close>

theorem proxy_timeout_504_keeps_resolved_entry:
  assumes "proxy_video x req video_id w = (r, w')"
    and "fetch_calls w' = fetch_calls w @ [(u, hs)]"
    and "requests_get x u hs = FetchTimeout"
  shows "status r = 504
         \<and> (\<exists>v. find_by_id (ObjectId x) (find_one x) video_id = Some v
                \<and> (case fst (get_cached_stream_data (t_lookup x) (youtube_id v) w) of
                      Some e \<Rightarrow> stream_cache w' = stream_cache w
                    | None \<Rightarrow>
                        \<exists>h. stream_cache w'
                              = (stream_cache w)(youtube_id v \<mapsto>
                                  \<lparr>url = u, headers = h, expires_at = t_store x + 3600\<rparr>)))"
proof -
  from proxy_video_fetched [OF assms(1,2)] obtain v sh w1 where
    v: "find_by_id (ObjectId x) (find_one x) video_id = Some v"
    and ex: "extract_stream_data (extract_info x) (t_lookup x) (t_store x) (youtube_id v) w
             = ((Some u, sh), w1)"
    and w': "w' = w1\<lparr>fetch_calls := fetch_calls w1 @ [(u, hs)]\<rparr>"
    and r: "r = (case requests_get x u hs of
                     FetchTimeout \<Rightarrow> plain 504 ''Stream timeout''
                   | FetchError \<Rightarrow> plain 500 ''Failed to stream video''
                   | Fetched resp \<Rightarrow>
                       \<lparr>status = proxy_status_code (hdr_Range req) (up_status resp),
                        resp_headers = proxy_response_headers (up_headers resp),
                        body = Streamed (filter (\<lambda>chunk. chunk \<noteq> []) (up_chunks resp))\<rparr>)"
    by blast
  from r assms(3) have s: "status r = 504"
    by (simp add: plain_def)
  from w' have c: "stream_cache w' = stream_cache w1"
    by simp
  from extract_stream_data_cache [OF ex] c
  have "case fst (get_cached_stream_data (t_lookup x) (youtube_id v) w) of
          Some e \<Rightarrow> stream_cache w' = stream_cache w
        | None \<Rightarrow>
            \<exists>h. stream_cache w'
                  = (stream_cache w)(youtube_id v \<mapsto>
                      \<lparr>url = u, headers = h, expires_at = t_store x + 3600\<rparr>)"
    by (auto split: option.splits)
  with s v show ?thesis
    by blast
qed

text \<open>
  Claim C5 as stated (the cache entry for the identifier is the same after the timed-out
  request as before it) fails when the cache was empty: the request resolves the
  locator, caches it, times out on the fetch, and leaves the entry behind.
\<close>

lemma example_timeout_response:
  "proxy_video example_timeout_ext example_request example_video_id empty_world =
     (plain 504 ''Stream timeout'',
      \<lparr>stream_cache = [''dQw4w9WgXcQ'' \<mapsto> example_entry],
       extract_calls = [youtube_url ''dQw4w9WgXcQ''],
       fetch_calls = [(url example_entry, (headers example_entry)(''Range'' \<mapsto> ''bytes=100-199''))]\<rparr>)"
proof -
  have x: "JWT_SECRET_KEY example_timeout_ext = Some ''s3cret''"
    "t_decode example_timeout_ext = 1000"
    "ObjectId example_timeout_ext = example_object_id"
    "find_one example_timeout_ext = example_find_one"
    by (simp_all add: example_timeout_ext_def example_ext_def)
  have ex: "extract_stream_data (extract_info example_timeout_ext) (t_lookup example_timeout_ext)
     (t_store example_timeout_ext) ''dQw4w9WgXcQ'' empty_world
   = ((Some (url example_entry), Some (headers example_entry)),
      \<lparr>stream_cache = [''dQw4w9WgXcQ'' \<mapsto> example_entry],
       extract_calls = [youtube_url ''dQw4w9WgXcQ''],
       fetch_calls = []\<rparr>)"
    by (simp add: example_timeout_ext_def example_ext_def example_extract)
  have u: "url example_entry \<noteq> []"
    by (simp add: example_entry_def)
  have r: "hdr_Range example_request = Some ''bytes=100-199''"
    by (simp add: example_request_def)
  have g: "requests_get example_timeout_ext = (\<lambda>u h. FetchTimeout)"
    by (simp add: example_timeout_ext_def)
  show ?thesis
    by (simp add: example_proxy_stage [OF example_request_token x] ex u r g Let_def)
qed

theorem timed_out_request_populates_cache:
  "requests_get example_timeout_ext (url example_entry)
     ((headers example_entry)(''Range'' \<mapsto> ''bytes=100-199'')) = FetchTimeout
   \<and> fetch_calls (snd (proxy_video example_timeout_ext example_request example_video_id
          empty_world))
       = [(url example_entry, (headers example_entry)(''Range'' \<mapsto> ''bytes=100-199''))]
   \<and> status (fst (proxy_video example_timeout_ext example_request example_video_id
          empty_world)) = 504
   \<and> stream_cache empty_world ''dQw4w9WgXcQ'' = None
   \<and> stream_cache (snd (proxy_video example_timeout_ext example_request example_video_id
          empty_world)) ''dQw4w9WgXcQ'' = Some example_entry"
proof -
  have 1: "requests_get example_timeout_ext (url example_entry)
     ((headers example_entry)(''Range'' \<mapsto> ''bytes=100-199'')) = FetchTimeout"
    by (simp add: example_timeout_ext_def)
  have 2: "stream_cache empty_world ''dQw4w9WgXcQ'' = None"
    by (simp add: empty_world_def)
  show ?thesis
    using 1 2 by (simp add: example_timeout_response plain_def)
qed

lemma example_cached_timeout_response:
  "proxy_video example_timeout_ext example_request example_video_id example_cached_world =
     (plain 504 ''Stream timeout'',
      \<lparr>stream_cache = [''dQw4w9WgXcQ'' \<mapsto> example_entry],
       extract_calls = [],
       fetch_calls = [(url example_entry, (headers example_entry)(''Range'' \<mapsto> ''bytes=100-199''))]\<rparr>)"
proof -
  have x: "JWT_SECRET_KEY example_timeout_ext = Some ''s3cret''"
    "t_decode example_timeout_ext = 1000"
    "ObjectId example_timeout_ext = example_object_id"
    "find_one example_timeout_ext = example_find_one"
    by (simp_all add: example_timeout_ext_def example_ext_def)
  have c: "stream_cache example_cached_world ''dQw4w9WgXcQ'' = Some example_entry"
    by (simp add: example_cached_world_def)
  have f: "t_lookup example_timeout_ext < expires_at example_entry"
    by (simp add: example_timeout_ext_def example_ext_def example_entry_def)
  have ex: "extract_stream_data (extract_info example_timeout_ext) (t_lookup example_timeout_ext)
     (t_store example_timeout_ext) ''dQw4w9WgXcQ'' example_cached_world
   = ((Some (url example_entry), Some (headers example_entry)), example_cached_world)"
    by (simp add: extract_stream_data_hit get_cached_fresh [OF c f])
  have u: "url example_entry \<noteq> []"
    by (simp add: example_entry_def)
  have r: "hdr_Range example_request = Some ''bytes=100-199''"
    by (simp add: example_request_def)
  have g: "requests_get example_timeout_ext = (\<lambda>u h. FetchTimeout)"
    by (simp add: example_timeout_ext_def)
  show ?thesis
    by (simp add: example_proxy_stage [OF example_request_token x] ex u r g Let_def)
       (simp add: example_cached_world_def)
qed

theorem proxy_timeout_504_keeps_resolved_entry_witness:
  "fetch_calls (snd (proxy_video example_timeout_ext example_request example_video_id empty_world))
     = fetch_calls empty_world
         @ [(url example_entry, (headers example_entry)(''Range'' \<mapsto> ''bytes=100-199''))]
   \<and> requests_get example_timeout_ext (url example_entry)
         ((headers example_entry)(''Range'' \<mapsto> ''bytes=100-199'')) = FetchTimeout
   \<and> status (fst (proxy_video example_timeout_ext example_request example_video_id empty_world))
       = 504
   \<and> (\<exists>v. find_by_id (ObjectId example_timeout_ext) (find_one example_timeout_ext)
              example_video_id = Some v
          \<and> (case fst (get_cached_stream_data (t_lookup example_timeout_ext) (youtube_id v)
                         empty_world) of
                Some e \<Rightarrow>
                  stream_cache (snd (proxy_video example_timeout_ext example_request
                     example_video_id empty_world)) = stream_cache empty_world
              | None \<Rightarrow>
                  \<exists>h. stream_cache (snd (proxy_video example_timeout_ext example_request
                          example_video_id empty_world))
                        = (stream_cache empty_world)(youtube_id v \<mapsto>
                            \<lparr>url = url example_entry, headers = h,
                             expires_at = t_store example_timeout_ext + 3600\<rparr>)))
   \<and> fetch_calls (snd (proxy_video example_timeout_ext example_request example_video_id
          example_cached_world))
     = fetch_calls example_cached_world
         @ [(url example_entry, (headers example_entry)(''Range'' \<mapsto> ''bytes=100-199''))]
   \<and> status (fst (proxy_video example_timeout_ext example_request example_video_id
          example_cached_world)) = 504
   \<and> (\<exists>v. find_by_id (ObjectId example_timeout_ext) (find_one example_timeout_ext)
              example_video_id = Some v
          \<and> (case fst (get_cached_stream_data (t_lookup example_timeout_ext) (youtube_id v)
                         example_cached_world) of
                Some e \<Rightarrow>
                  stream_cache (snd (proxy_video example_timeout_ext example_request
                     example_video_id example_cached_world)) = stream_cache example_cached_world
              | None \<Rightarrow>
                  \<exists>h. stream_cache (snd (proxy_video example_timeout_ext example_request
                          example_video_id example_cached_world))
                        = (stream_cache example_cached_world)(youtube_id v \<mapsto>
                            \<lparr>url = url example_entry, headers = h,
                             expires_at = t_store example_timeout_ext + 3600\<rparr>)))"
proof -
  let ?hs = "(headers example_entry)(''Range'' \<mapsto> ''bytes=100-199'')"
  let ?p = "proxy_video example_timeout_ext example_request example_video_id empty_world"
  let ?q = "proxy_video example_timeout_ext example_request example_video_id example_cached_world"
  have got: "requests_get example_timeout_ext (url example_entry) ?hs = FetchTimeout"
    by (simp add: example_timeout_ext_def)
  have p: "?p = (fst ?p, snd ?p)" and q: "?q = (fst ?q, snd ?q)"
    by simp_all
  have fp: "fetch_calls (snd ?p) = fetch_calls empty_world @ [(url example_entry, ?hs)]"
    using empty_logs by (simp add: example_timeout_response)
  have "fetch_calls example_cached_world = []"
    by (simp add: example_cached_world_def)
  then have fq: "fetch_calls (snd ?q) = fetch_calls example_cached_world @ [(url example_entry, ?hs)]"
    by (simp add: example_cached_timeout_response)
  note tp = proxy_timeout_504_keeps_resolved_entry [OF p fp got]
  note tq = proxy_timeout_504_keeps_resolved_entry [OF q fq got]
  from fp got tp fq tq show ?thesis
    by (elim conjE) (intro conjI, assumption+)
qed

text \<open>A call on an identifier without a cache entry always reaches the resolver.\<close>

lemma extract_after_failure_retries:
  assumes "stream_cache w y = None"
  shows "extract_calls (snd (extract_stream_data ydl t1 t2 y w)) = extract_calls w @ [youtube_url y]"
  using assms by (simp add: extract_stream_data_miss_calls get_cached_absent)

text \<open>
  Claim C7. When the lookup finds no fresh entry and the resolver fails (the extraction
  raises, or it returns an info dictionary in which no URL is found),
  \<open>_extract_stream_data\<close> returns \<open>(None, None)\<close> and stores nothing: the cache
  after the call is the cache the lookup left (the lookup removes an expired entry of
  that identifier, as claim C6 says; without such an entry the cache is exactly as
  before the call), and it has no entry for the identifier. The next call for the same
  identifier, at any time and whatever the resolver then answers, calls the resolver
  again. The proxy endpoint answers such a request with status 500.
\<close>

theorem failed_resolution_not_cached:
  assumes miss: "fst (get_cached_stream_data t1 y w) = None"
    and fail: "ydl (youtube_url y) = ExtractRaises
               \<or> (\<exists>i. ydl (youtube_url y) = ExtractInfo i \<and> pick_stream i = None)"
  shows "fst (extract_stream_data ydl t1 t2 y w) = (None, None)
         \<and> stream_cache (snd (extract_stream_data ydl t1 t2 y w))
             = stream_cache (snd (get_cached_stream_data t1 y w))
         \<and> stream_cache (snd (extract_stream_data ydl t1 t2 y w)) y = None
         \<and> (stream_cache w y = None \<longrightarrow>
              stream_cache (snd (extract_stream_data ydl t1 t2 y w)) = stream_cache w)
         \<and> extract_calls (snd (extract_stream_data ydl' t1' t2' y
                (snd (extract_stream_data ydl t1 t2 y w))))
             = extract_calls w @ [youtube_url y, youtube_url y]
         \<and> (arg_token req = Some tok
              \<and> verify_playback_token_without_user (JWT_SECRET_KEY x) (t_decode x) tok video_id
                   = Some c
              \<and> find_by_id (ObjectId x) (find_one x) video_id = Some v \<and> is_active v
              \<and> youtube_id v = y \<and> extract_info x = ydl \<and> t_lookup x = t1 \<and> t_store x = t2
              \<longrightarrow> proxy_video x req video_id w
                    = (plain 500 ''Failed to get video stream'',
                       snd (extract_stream_data ydl t1 t2 y w)))"
proof -
  let ?w' = "snd (extract_stream_data ydl t1 t2 y w)"
  note ex = extract_stream_data_failed [of t1 y w ydl t2, OF miss fail]
  from ex have res: "fst (extract_stream_data ydl t1 t2 y w) = (None, None)"
    by simp
  from ex have cache: "stream_cache ?w' = stream_cache (snd (get_cached_stream_data t1 y w))"
    by simp
  from ex have calls: "extract_calls ?w' = extract_calls w @ [youtube_url y]"
    by simp
  from cache get_cached_miss_cache [OF miss]
  have upd: "stream_cache ?w' = (stream_cache w)(y := None)"
    by simp
  then have none: "stream_cache ?w' y = None"
    by simp
  from upd have same: "stream_cache ?w' = stream_cache w" if "stream_cache w y = None"
    using that by (simp add: fun_upd_idem)
  from extract_after_failure_retries [OF none, of ydl' t1' t2'] calls
  have retry: "extract_calls (snd (extract_stream_data ydl' t1' t2' y ?w'))
               = extract_calls w @ [youtube_url y, youtube_url y]"
    by simp
  have proxy: "proxy_video x req video_id w = (plain 500 ''Failed to get video stream'', ?w')"
    if "arg_token req = Some tok"
      "verify_playback_token_without_user (JWT_SECRET_KEY x) (t_decode x) tok video_id = Some c"
      "find_by_id (ObjectId x) (find_one x) video_id = Some v" "is_active v"
      "youtube_id v = y" "extract_info x = ydl" "t_lookup x = t1" "t_store x = t2"
    using that(4-8) ex by (simp add: proxy_video_verified [OF that(1-3)])
  from res cache none same retry proxy show ?thesis
    by (intro conjI impI) (simp_all only:, (elim conjE, simp)?)
qed

theorem failed_resolution_not_cached_witness:
  "fst (get_cached_stream_data 1001 ''dQw4w9WgXcQ'' empty_world) = None
   \<and> fst (extract_stream_data (\<lambda>u. ExtractRaises) 1001 1002 ''dQw4w9WgXcQ'' empty_world)
       = (None, None)
   \<and> stream_cache (snd (extract_stream_data (\<lambda>u. ExtractRaises) 1001 1002 ''dQw4w9WgXcQ''
          empty_world)) = stream_cache empty_world
   \<and> extract_calls (snd (extract_stream_data (\<lambda>u. ExtractInfo example_info) 2001 2002
          ''dQw4w9WgXcQ''
          (snd (extract_stream_data (\<lambda>u. ExtractRaises) 1001 1002 ''dQw4w9WgXcQ'' empty_world))))
       = extract_calls empty_world @ [youtube_url ''dQw4w9WgXcQ'', youtube_url ''dQw4w9WgXcQ'']
   \<and> proxy_video example_failing_ext example_request example_video_id empty_world
       = (plain 500 ''Failed to get video stream'',
          snd (extract_stream_data (\<lambda>u. ExtractRaises) 1001 1002 ''dQw4w9WgXcQ'' empty_world))
   \<and> fst (get_cached_stream_data 5000 ''dQw4w9WgXcQ'' example_cached_world) = None
   \<and> pick_stream example_info_without_url = None
   \<and> fst (extract_stream_data (\<lambda>u. ExtractInfo example_info_without_url) 5000 5001
          ''dQw4w9WgXcQ'' example_cached_world) = (None, None)
   \<and> stream_cache (snd (extract_stream_data (\<lambda>u. ExtractInfo example_info_without_url) 5000
          5001 ''dQw4w9WgXcQ'' example_cached_world)) ''dQw4w9WgXcQ'' = None"
proof -
  have miss: "fst (get_cached_stream_data 1001 ''dQw4w9WgXcQ'' empty_world) = None"
    by (simp add: get_cached_stream_data_def empty_world_def)
  have fail: "(\<lambda>u. ExtractRaises) (youtube_url ''dQw4w9WgXcQ'') = ExtractRaises
              \<or> (\<exists>i. (\<lambda>u. ExtractRaises) (youtube_url ''dQw4w9WgXcQ'') = ExtractInfo i
                     \<and> pick_stream i = None)"
    by simp
  have absent: "stream_cache empty_world ''dQw4w9WgXcQ'' = None"
    by (simp add: empty_world_def)
  have req: "arg_token example_request = Some example_token
     \<and> verify_playback_token_without_user (JWT_SECRET_KEY example_failing_ext)
          (t_decode example_failing_ext) example_token example_video_id = Some example_claims
     \<and> find_by_id (ObjectId example_failing_ext) (find_one example_failing_ext) example_video_id
          = Some example_video
     \<and> is_active example_video
     \<and> youtube_id example_video = ''dQw4w9WgXcQ''
     \<and> extract_info example_failing_ext = (\<lambda>u. ExtractRaises)
     \<and> t_lookup example_failing_ext = 1001 \<and> t_store example_failing_ext = 1002"
    by (simp add: example_request_token example_failing_ext_def example_ext_def
        example_verify_without_user example_find_by_id)
       (simp add: example_video_def)
  note t = failed_resolution_not_cached [of 1001 "''dQw4w9WgXcQ''" empty_world
      "\<lambda>u. ExtractRaises" 1002 "\<lambda>u. ExtractInfo example_info" 2001 2002 example_request
      example_token example_failing_ext example_video_id example_claims example_video,
      OF miss fail]
  note t1 = t [THEN conjunct1]
  note t4 = t [THEN conjunct2, THEN conjunct2, THEN conjunct2, THEN conjunct1, THEN mp, OF absent]
  note t5 = t [THEN conjunct2, THEN conjunct2, THEN conjunct2, THEN conjunct2, THEN conjunct1]
  note t6 = t [THEN conjunct2, THEN conjunct2, THEN conjunct2, THEN conjunct2, THEN conjunct2,
      THEN mp, OF req]
  have stale: "fst (get_cached_stream_data 5000 ''dQw4w9WgXcQ'' example_cached_world) = None"
    by (simp add: get_cached_stream_data_def example_cached_world_def example_entry_def)
  have nourl: "pick_stream example_info_without_url = None"
    by (simp add: pick_stream_def example_info_without_url_def)
  then have fail2: "(\<lambda>u. ExtractInfo example_info_without_url) (youtube_url ''dQw4w9WgXcQ'')
                = ExtractRaises
              \<or> (\<exists>i. (\<lambda>u. ExtractInfo example_info_without_url) (youtube_url ''dQw4w9WgXcQ'')
                       = ExtractInfo i \<and> pick_stream i = None)"
    by simp
  note s = failed_resolution_not_cached [of 5000 "''dQw4w9WgXcQ''" example_cached_world
      "\<lambda>u. ExtractInfo example_info_without_url" 5001 "\<lambda>u. ExtractInfo example_info" 2001 2002
      example_request example_token example_failing_ext example_video_id example_claims
      example_video, OF stale fail2]
  note s1 = s [THEN conjunct1]
  note s3 = s [THEN conjunct2, THEN conjunct2, THEN conjunct1]
  from miss t1 t4 t5 t6 stale nourl s1 s3 show ?thesis
    by (intro conjI)
qed

section \<open>Properties of concurrent resolution calls\<close>

text \<open>The steps of a call, one program point at a time.\<close>

lemma call_step_acquire_lookup:
  "call_step me ydl now (At_lookup z) None w = (In_lookup z, Some me, w)"
  by (simp add: call_step_def)

lemma call_step_lookup:
  "call_step me ydl now (In_lookup z) lock w =
     (case get_cached_stream_data now z w of
        (Some cached, w1) \<Rightarrow> (Returned (Some (url cached), Some (headers cached)), None, w1)
      | (None, w1) \<Rightarrow> (At_extract z, None, w1))"
  by (simp add: call_step_def)

lemma call_step_extract:
  "call_step me ydl now (At_extract z) lock w =
     (At_select z (ydl (youtube_url z)), lock,
      w\<lparr>extract_calls := extract_calls w @ [youtube_url z]\<rparr>)"
  by (simp add: call_step_def)

lemma call_step_select:
  "call_step me ydl now (At_select z r) lock w =
     (case r of
        ExtractRaises \<Rightarrow> (Returned (None, None), lock, w)
      | ExtractInfo i \<Rightarrow>
          (case pick_stream i of
             Some (u, h) \<Rightarrow> (At_store z u h, lock, w)
           | None \<Rightarrow> (Returned (None, None), lock, w)))"
  by (simp add: call_step_def)

lemma call_step_acquire_store:
  "call_step me ydl now (At_store z u h) None w = (In_store z u h, Some me, w)"
  by (simp add: call_step_def)

lemma call_step_store:
  "call_step me ydl now (In_store z u h) lock w =
     (Returned (Some u, Some h), None, cache_stream_data now z u h w)"
  by (simp add: call_step_def)

lemma call_step_returned: "call_step me ydl now (Returned r) lock w = (Returned r, lock, w)"
  by (simp add: call_step_def)



text \<open>
  Run alone with the lock free, the six steps of a call (the lookup at \<open>t1\<close>, the
  extraction with \<open>ydl\<close>, the store at \<open>t2\<close>) are \<open>_extract_stream_data\<close>, and
  the lock is free again at the end.
\<close>

lemma extract_stream_data_as_steps:
  "run_alone me [(t0, ydl0), (t1, ydl1), (t, ydl), (t', ydl2), (t'', ydl3), (t2, ydl4)]
     (At_lookup y, None, w)
   = (Returned (fst (extract_stream_data ydl t1 t2 y w)), None,
      snd (extract_stream_data ydl t1 t2 y w))"
proof (cases "get_cached_stream_data t1 y w")
  case (Pair c w1)
  show ?thesis
  proof (cases c)
    case None
    with Pair show ?thesis
      by (simp add: call_step_acquire_lookup call_step_lookup call_step_extract call_step_select
            call_step_acquire_store call_step_store call_step_returned extract_stream_data_miss
               split: ydl_result.splits option.splits)
  next
    case (Some e)
    with Pair show ?thesis
      by (simp add: call_step_acquire_lookup call_step_lookup call_step_returned
            extract_stream_data_hit)
  qed
qed












































lemma example_schedule_contended_taken:
  "taken First example_schedule_contended
     (At_lookup ''dQw4w9WgXcQ'', At_lookup ''9bZkp7q19f0'', None, empty_world)
   = [(10, \<lambda>u. ExtractInfo example_info)]"
  "taken Second example_schedule_contended
     (At_lookup ''dQw4w9WgXcQ'', At_lookup ''9bZkp7q19f0'', None, empty_world)
   = []"
  unfolding example_schedule_contended_def
  by (simp_all add: call_step_def blocked_def)





end
